theory Spec2Isabelle
  imports Main
begin

section \<open>Values decoded from JSON, as Python holds them\<close>

text \<open>
  Both programs (\<^verbatim>\<open>api.py\<close>, the file strategy, and \<^verbatim>\<open>api_fixed.py\<close>, the Railway
  strategy) store whatever \<^verbatim>\<open>response.json()\<close> and \<^verbatim>\<open>json.load\<close> hand them, without
  checking its type. The model therefore keeps decoded JSON values as they are:
  \<open>JNull\<close> is Python's \<^verbatim>\<open>None\<close>, \<open>JObj\<close> is a \<^verbatim>\<open>dict\<close> given by its items (keys
  distinct, as in every Python dict), \<open>JArr\<close> is a \<^verbatim>\<open>list\<close>. JSON numbers with a
  fraction or an exponent (Python floats) are outside the model.
\<close>

datatype json =
    JNull
  | JBool bool
  | JInt int
  | JStr string
  | JArr "json list"
  | JObj "(string \<times> json) list"

text \<open>Python's truth value of a decoded value (\<^verbatim>\<open>if x\<close>, \<^verbatim>\<open>not x\<close>).\<close>

fun truthy :: "json \<Rightarrow> bool" where
  "truthy JNull = False"
| "truthy (JBool b) = b"
| "truthy (JInt n) = (n \<noteq> 0)"
| "truthy (JStr s) = (s \<noteq> [])"
| "truthy (JArr xs) = (xs \<noteq> [])"
| "truthy (JObj kv) = (kv \<noteq> [])"

text \<open>
  Python's \<^verbatim>\<open>==\<close> on decoded values: \<^verbatim>\<open>True == 1\<close> and \<^verbatim>\<open>False == 0\<close> hold, lists
  compare element by element, dicts compare by keys whatever their order.
\<close>

fun py_eq :: "json \<Rightarrow> json \<Rightarrow> bool"
  and py_eq_list :: "json list \<Rightarrow> json list \<Rightarrow> bool"
  and py_eq_items :: "(string \<times> json) list \<Rightarrow> (string \<times> json) list \<Rightarrow> bool"
where
  "py_eq JNull JNull = True"
| "py_eq (JBool a) (JBool b) = (a = b)"
| "py_eq (JBool a) (JInt n) = ((if a then 1 else 0) = n)"
| "py_eq (JInt m) (JBool b) = (m = (if b then 1 else 0))"
| "py_eq (JInt m) (JInt n) = (m = n)"
| "py_eq (JStr s) (JStr t) = (s = t)"
| "py_eq (JArr xs) (JArr ys) = py_eq_list xs ys"
| "py_eq (JObj xs) (JObj ys) = (length xs = length ys \<and> py_eq_items xs ys)"
| "py_eq _ _ = False"
| "py_eq_list [] [] = True"
| "py_eq_list (x # xs) (y # ys) = (py_eq x y \<and> py_eq_list xs ys)"
| "py_eq_list _ _ = False"
| "py_eq_items [] ys = True"
| "py_eq_items ((k, v) # xs) ys =
     ((case map_of ys k of None \<Rightarrow> False | Some u \<Rightarrow> py_eq v u) \<and> py_eq_items xs ys)"

text \<open>
  \<^verbatim>\<open>x[:10]\<close> is defined on strings and lists; on \<^verbatim>\<open>None\<close>, a bool or an int it raises
  \<^verbatim>\<open>TypeError\<close>, and on a dict it raises as well (a slice is no key).
\<close>

fun sliceable :: "json \<Rightarrow> bool" where
  "sliceable (JStr s) = True"
| "sliceable (JArr xs) = True"
| "sliceable _ = False"

text \<open>\<^verbatim>\<open>d.get(key)\<close> and \<^verbatim>\<open>d.get(key, default)\<close> on the items of a dict.\<close>

definition get_item :: "(string \<times> json) list \<Rightarrow> string \<Rightarrow> json" where
  "get_item kv k = (case map_of kv k of None \<Rightarrow> JNull | Some v \<Rightarrow> v)"

definition get_default :: "(string \<times> json) list \<Rightarrow> string \<Rightarrow> json \<Rightarrow> json" where
  "get_default kv k d = (case map_of kv k of None \<Rightarrow> d | Some v \<Rightarrow> v)"

datatype pyerror =
    TypeError
  | AttributeError
  | ValueError
  | RequestException
  | HTTPError
  | JSONDecodeError
  | OSError
  | OverflowError

text \<open>Calling \<^verbatim>\<open>.get\<close> on a value that is no dict raises \<^verbatim>\<open>AttributeError\<close>.\<close>

fun as_dict :: "json \<Rightarrow> pyerror + (string \<times> json) list" where
  "as_dict (JObj kv) = Inr kv"
| "as_dict _ = Inl AttributeError"

section \<open>Time\<close>

text \<open>
  A naive \<^verbatim>\<open>datetime\<close> is its count of microseconds since \<^verbatim>\<open>datetime.min\<close>
  (0001-01-01T00:00:00); \<^verbatim>\<open>datetime.max\<close> (9999-12-31T23:59:59.999999) is
  \<open>max_datetime\<close>. A \<^verbatim>\<open>timedelta\<close> is a count of microseconds. Adding a timedelta to a
  datetime, or subtracting it, raises \<^verbatim>\<open>OverflowError\<close> when the result leaves that
  range.
\<close>

type_synonym datetime = int

definition max_datetime :: int where
  "max_datetime = 315537897599999999"

definition checked :: "int \<Rightarrow> pyerror + datetime" where
  "checked x = (if 0 \<le> x \<and> x \<le> max_datetime then Inr x else Inl OverflowError)"

definition datetime_add :: "datetime \<Rightarrow> int \<Rightarrow> pyerror + datetime" where
  "datetime_add t d = checked (t + d)"

definition datetime_sub :: "datetime \<Rightarrow> int \<Rightarrow> pyerror + datetime" where
  "datetime_sub t d = checked (t - d)"

definition five_minutes :: int where
  "five_minutes = 300 * 1000000"

text \<open>
  \<^verbatim>\<open>timedelta(seconds=x)\<close> accepts an int (and a bool, which is an int) and raises
  \<^verbatim>\<open>TypeError\<close> on every other decoded value; it raises \<^verbatim>\<open>OverflowError\<close> when the
  number of whole days exceeds 999999999 in magnitude.
\<close>

fun timedelta_seconds :: "json \<Rightarrow> pyerror + int" where
  "timedelta_seconds (JInt n) =
     (if \<bar>n div 86400\<bar> > 999999999 then Inl OverflowError else Inr (n * 1000000))"
| "timedelta_seconds (JBool b) = Inr ((if b then 1 else 0) * 1000000)"
| "timedelta_seconds _ = Inl TypeError"

text \<open>\<^verbatim>\<open>datetime.now() + timedelta(seconds=expires_in)\<close>, at the clock reading \<open>t\<close>.\<close>

definition expiry_after :: "datetime \<Rightarrow> json \<Rightarrow> pyerror + datetime" where
  "expiry_after t expires_in =
     (case timedelta_seconds expires_in of
        Inl e \<Rightarrow> Inl e
      | Inr d \<Rightarrow> datetime_add t d)"

text \<open>
  \<^verbatim>\<open>datetime.fromisoformat\<close> is a library function; the model takes it as a parameter
  with this result type: the string is rejected (\<^verbatim>\<open>ValueError\<close>), or it denotes a
  naive datetime, or one with a UTC offset, which cannot be compared with
  \<^verbatim>\<open>datetime.now()\<close> (\<^verbatim>\<open>TypeError\<close>). \<^verbatim>\<open>isoformat\<close> is a parameter of type
  \<open>datetime \<Rightarrow> string\<close>.
\<close>

datatype parsed_time = BadFormat | Naive datetime | Aware datetime

section \<open>The token state\<close>

record token_state =
  access_token :: json
  refresh_token :: json
  client_id :: string
  token_expiry :: "datetime option"

text \<open>
  \<^verbatim>\<open>TokenState.is_expired\<close> (the same in both files), at the clock reading \<open>t\<close>. The
  subtraction \<^verbatim>\<open>self.token_expiry - buffer\<close> is in no \<^verbatim>\<open>try\<close>: its
  \<^verbatim>\<open>OverflowError\<close> reaches the caller.
\<close>

definition is_expired :: "datetime \<Rightarrow> 'a token_state_scheme \<Rightarrow> pyerror + bool" where
  "is_expired t s =
     (if \<not> truthy (access_token s) \<or> token_expiry s = None then Inr True
      else
        (case datetime_sub (the (token_expiry s)) five_minutes of
           Inl e \<Rightarrow> Inl e
         | Inr limit \<Rightarrow> Inr (t \<ge> limit)))"

section \<open>HTTP exchanges\<close>

text \<open>
  What \<^verbatim>\<open>requests.post\<close> gives back: an exception (no connection, timeout), or a
  response with a status code and a body that is JSON or not.
\<close>

datatype body = NotJson | Json json

datatype reply = NoReply | Reply nat body

text \<open>
  \<^verbatim>\<open>response.raise_for_status()\<close> raises on 4xx and 5xx; then \<^verbatim>\<open>response.json()\<close>
  raises on a body that is not JSON.
\<close>

fun post_json :: "reply \<Rightarrow> pyerror + json" where
  "post_json NoReply = Inl RequestException"
| "post_json (Reply status NotJson) =
     (if 400 \<le> status \<and> status < 600 then Inl HTTPError else Inl JSONDecodeError)"
| "post_json (Reply status (Json j)) =
     (if 400 \<le> status \<and> status < 600 then Inl HTTPError else Inr j)"

text \<open>The body of the refresh grant sent to the identity provider.\<close>

record grant =
  grant_client_id :: string
  grant_refresh_token :: json

text \<open>
  What one call leaves behind: its return value, the object, the store of the
  persistence strategy, and the grants sent to the provider.
\<close>

record ('r, 's, 'p) outcome =
  ret_val :: 'r
  self_after :: 's
  store_after :: 'p
  sent :: "grant list"

definition returning :: "'r \<Rightarrow> ('q, 's, 'p) outcome \<Rightarrow> ('r, 's, 'p) outcome" where
  "returning v r =
     \<lparr>ret_val = v, self_after = self_after r, store_after = store_after r, sent = sent r\<rparr>"

text \<open>
  The rotation step of \<^verbatim>\<open>refresh\<close>, up to the assignment: the new token is adopted
  when it is truthy and differs from the current one; building the two log prefixes
  raises when one of them cannot be sliced. \<open>None\<close> means no rotation.
\<close>

definition rotation :: "json \<Rightarrow> 'a token_state_scheme \<Rightarrow> pyerror + json option" where
  "rotation new_refresh s =
     (if truthy new_refresh \<and> \<not> py_eq new_refresh (refresh_token s) then
        (if truthy (refresh_token s) \<and> \<not> sliceable (refresh_token s) then Inl TypeError
         else if \<not> sliceable new_refresh then Inl TypeError
         else Inr (Some new_refresh))
      else Inr None)"

section \<open>The file strategy (\<^verbatim>\<open>api.py\<close>)\<close>

text \<open>
  The file \<^verbatim>\<open>/data/token_state.json\<close>: missing, present but unreadable or not JSON,
  holding a JSON document, or at a path that cannot be examined (\<^verbatim>\<open>Path.exists()\<close>
  raises, as on a directory without search permission). A write ends in one of four
  ways; only a failure while dumping leaves a damaged file behind.
\<close>

datatype file_state = NoFile | BadFile | JsonFile json | Inaccessible

datatype write_outcome = Written | MkdirFails | OpenFails | DumpFails

text \<open>
  What the environment contributes to one \<^verbatim>\<open>refresh\<close>: the provider's reply, the
  clock when the expiry is computed, the clock when the record is stamped, and how the
  write ends.
\<close>

record world =
  provider_reply :: reply
  clock_refresh :: datetime
  clock_saved :: datetime
  write_result :: write_outcome

text \<open>The second half of \<^verbatim>\<open>_load_persisted_state\<close>: restoring a still valid access token.\<close>

definition restore_access ::
  "(string \<Rightarrow> parsed_time) \<Rightarrow> datetime \<Rightarrow> (string \<times> json) list \<Rightarrow> token_state \<Rightarrow> token_state"
where
  "restore_access fromisoformat t state s =
     (let expiry_str = get_item state ''token_expiry'' in
      if \<not> truthy expiry_str then s
      else
        (case expiry_str of
           JStr str \<Rightarrow>
             (case fromisoformat str of
                Naive expiry \<Rightarrow>
                  (case datetime_sub expiry five_minutes of
                     Inl e \<Rightarrow> s
                   | Inr limit \<Rightarrow>
                       if t < limit
                       then s\<lparr>access_token := get_item state ''access_token'',
                              token_expiry := Some expiry\<rparr>
                       else s)
              | Aware expiry \<Rightarrow> s
              | BadFormat \<Rightarrow> s)
         | _ \<Rightarrow> s))"

text \<open>
  \<^verbatim>\<open>_load_persisted_state\<close>: every exception is caught, and what was assigned before
  it stays assigned (the log line after the assignment of the refresh token slices it).
\<close>

definition load_persisted_state ::
  "(string \<Rightarrow> parsed_time) \<Rightarrow> datetime \<Rightarrow> file_state \<Rightarrow> token_state \<Rightarrow> token_state"
where
  "load_persisted_state fromisoformat t fs s =
     (case fs of
        NoFile \<Rightarrow> s
      | BadFile \<Rightarrow> s
      | Inaccessible \<Rightarrow> s
      | JsonFile doc \<Rightarrow>
          (case as_dict doc of
             Inl e \<Rightarrow> s
           | Inr state \<Rightarrow>
               (let persisted_refresh = get_item state ''refresh_token'';
                    s1 = (if truthy persisted_refresh
                          then s\<lparr>refresh_token := persisted_refresh\<rparr> else s)
                in if truthy persisted_refresh \<and> \<not> sliceable persisted_refresh then s1
                   else restore_access fromisoformat t state s1)))"

text \<open>\<^verbatim>\<open>TokenState.__init__\<close>, from the two environment variables.\<close>

definition init ::
  "string \<Rightarrow> string \<Rightarrow> (string \<Rightarrow> parsed_time) \<Rightarrow> datetime \<Rightarrow> file_state \<Rightarrow> token_state"
where
  "init env_refresh env_client fromisoformat t fs =
     load_persisted_state fromisoformat t fs
       \<lparr>access_token = JNull, refresh_token = JStr env_refresh,
        client_id = env_client, token_expiry = None\<rparr>"

text \<open>The record \<^verbatim>\<open>_persist_state\<close> dumps, and the file it leaves; it never raises.\<close>

definition state_record :: "(datetime \<Rightarrow> string) \<Rightarrow> datetime \<Rightarrow> token_state \<Rightarrow> json" where
  "state_record isoformat t s =
     JObj [(''refresh_token'', refresh_token s),
           (''access_token'', access_token s),
           (''token_expiry'',
              (case token_expiry s of None \<Rightarrow> JNull | Some e \<Rightarrow> JStr (isoformat e))),
           (''updated_at'', JStr (isoformat t))]"

definition persist_state ::
  "(datetime \<Rightarrow> string) \<Rightarrow> datetime \<Rightarrow> write_outcome \<Rightarrow> token_state \<Rightarrow> file_state \<Rightarrow> file_state"
where
  "persist_state isoformat t wr s fs =
     (case wr of
        Written \<Rightarrow> JsonFile (state_record isoformat t s)
      | MkdirFails \<Rightarrow> fs
      | OpenFails \<Rightarrow> fs
      | DumpFails \<Rightarrow> BadFile)"

text \<open>
  \<^verbatim>\<open>TokenState.refresh\<close> of \<^verbatim>\<open>api.py\<close>. The log line before the \<^verbatim>\<open>try\<close> slices the
  refresh token, so an exception there reaches the caller (\<open>Inl\<close>); every exception
  inside the \<^verbatim>\<open>try\<close> is caught and turns into \<^verbatim>\<open>False\<close>, with the assignments made
  before it left in place.
\<close>

definition refresh ::
  "(datetime \<Rightarrow> string) \<Rightarrow> world \<Rightarrow> file_state \<Rightarrow> token_state
     \<Rightarrow> pyerror + (bool, token_state, file_state) outcome"
where
  "refresh isoformat w fs s =
     (if \<not> truthy (refresh_token s) then
        Inr \<lparr>ret_val = False, self_after = s, store_after = fs, sent = []\<rparr>
      else if client_id s = [] then
        Inr \<lparr>ret_val = False, self_after = s, store_after = fs, sent = []\<rparr>
      else if \<not> sliceable (refresh_token s) then Inl TypeError
      else
        (let data = \<lparr>grant_client_id = client_id s, grant_refresh_token = refresh_token s\<rparr>;
             failed = (\<lambda>s'. Inr \<lparr>ret_val = False, self_after = s', store_after = fs,
                                  sent = [data]\<rparr>)
         in case post_json (provider_reply w) of
              Inl e \<Rightarrow> failed s
            | Inr j \<Rightarrow>
                (case as_dict j of
                   Inl e \<Rightarrow> failed s
                 | Inr result \<Rightarrow>
                     (let s1 = s\<lparr>access_token := get_item result ''access_token''\<rparr> in
                      case rotation (get_item result ''refresh_token'') s1 of
                        Inl e \<Rightarrow> failed s1
                      | Inr rot \<Rightarrow>
                          (let s2 = (case rot of None \<Rightarrow> s1
                                     | Some new_refresh \<Rightarrow> s1\<lparr>refresh_token := new_refresh\<rparr>)
                           in case expiry_after (clock_refresh w)
                                     (get_default result ''expires_in'' (JInt 3600)) of
                                Inl e \<Rightarrow> failed s2
                              | Inr expiry \<Rightarrow>
                                  (let s3 = s2\<lparr>token_expiry := Some expiry\<rparr>
                                   in Inr \<lparr>ret_val = True, self_after = s3,
                                           store_after =
                                             persist_state isoformat (clock_saved w)
                                               (write_result w) s3 fs,
                                           sent = [data]\<rparr>))))))"

text \<open>
  \<^verbatim>\<open>TokenState.get_token\<close> of \<^verbatim>\<open>api.py\<close>; \<open>t\<close> is the clock read by \<^verbatim>\<open>is_expired\<close>.
  The value returned is the access token, or \<open>JNull\<close> for \<^verbatim>\<open>None\<close>. An exception of
  \<^verbatim>\<open>is_expired\<close> or of \<^verbatim>\<open>refresh\<close> reaches the caller; both raise before anything is
  assigned or sent.
\<close>

definition get_token ::
  "(datetime \<Rightarrow> string) \<Rightarrow> datetime \<Rightarrow> world \<Rightarrow> file_state \<Rightarrow> token_state
     \<Rightarrow> pyerror + (json, token_state, file_state) outcome"
where
  "get_token isoformat t w fs s =
     (case is_expired t s of
        Inl e \<Rightarrow> Inl e
      | Inr expired \<Rightarrow>
          if expired then
            (case refresh isoformat w fs s of
               Inl e \<Rightarrow> Inl e
             | Inr r \<Rightarrow>
                 if \<not> ret_val r then Inr (returning JNull r)
                 else Inr (returning (access_token (self_after r)) r))
          else Inr \<lparr>ret_val = access_token s, self_after = s, store_after = fs, sent = []\<rparr>)"

text \<open>
  The \<^verbatim>\<open>/health\<close> handler of \<^verbatim>\<open>api.py\<close>. Its value is the dict it builds, or the
  exception that reaches the caller: the one of \<^verbatim>\<open>get_token\<close>, the \<^verbatim>\<open>OSError\<close> of
  \<^verbatim>\<open>TOKEN_STATE_FILE.exists()\<close>, or the \<^verbatim>\<open>TypeError\<close> of adding \<^verbatim>\<open>"..."\<close> to the slice
  of a refresh token that is no string. The last two are raised after \<^verbatim>\<open>get_token\<close>
  has run, so the object and the store are those it left.
\<close>

fun slice_dots :: "json \<Rightarrow> pyerror + json" where
  "slice_dots (JStr s) = Inr (JStr (take 10 s @ ''...''))"
| "slice_dots _ = Inl TypeError"

definition token_prefix :: "json \<Rightarrow> pyerror + json" where
  "token_prefix rt = (if truthy rt then slice_dots rt else Inr JNull)"

definition expiry_field :: "(datetime \<Rightarrow> string) \<Rightarrow> 'a token_state_scheme \<Rightarrow> json" where
  "expiry_field isoformat s =
     (case token_expiry s of None \<Rightarrow> JNull | Some e \<Rightarrow> JStr (isoformat e))"

definition health ::
  "(datetime \<Rightarrow> string) \<Rightarrow> datetime \<Rightarrow> world \<Rightarrow> file_state \<Rightarrow> token_state
     \<Rightarrow> (pyerror + json, token_state, file_state) outcome"
where
  "health isoformat t w fs s =
     (case get_token isoformat t w fs s of
        Inl e \<Rightarrow> \<lparr>ret_val = Inl e, self_after = s, store_after = fs, sent = []\<rparr>
      | Inr r \<Rightarrow>
          (let token = ret_val r; s' = self_after r in
           if store_after r = Inaccessible then returning (Inl OSError) r
           else
             (let persisted = (store_after r \<noteq> NoFile) in
              case token_prefix (refresh_token s') of
                Inl e \<Rightarrow> returning (Inl e) r
              | Inr prefix \<Rightarrow>
                  returning
                    (Inr (JObj [(''status'',
                                   JStr (if truthy token then ''healthy'' else ''unhealthy'')),
                                (''token_valid'', JBool (token \<noteq> JNull)),
                                (''token_expiry'', expiry_field isoformat s'),
                                (''persistence_enabled'', JBool persisted),
                                (''refresh_token_prefix'', prefix)])) r)))"

text \<open>
  The \<^verbatim>\<open>/reset-token\<close> handler of \<^verbatim>\<open>api.py\<close>: the file is deleted (an error of
  \<^verbatim>\<open>exists()\<close> or of \<^verbatim>\<open>unlink()\<close> reaches the caller before anything changed), the
  object is rebuilt from the environment, and one refresh is attempted; whatever that
  refresh does, the rebuilt object replaces the old one. The reply on an exception
  carries \<^verbatim>\<open>str(e)\<close> as its message; that text is not modelled.
\<close>

definition reset_token ::
  "string \<Rightarrow> string \<Rightarrow> (string \<Rightarrow> parsed_time) \<Rightarrow> (datetime \<Rightarrow> string) \<Rightarrow> bool \<Rightarrow> datetime
     \<Rightarrow> world \<Rightarrow> file_state \<Rightarrow> pyerror + (json, token_state, file_state) outcome"
where
  "reset_token env_refresh env_client fromisoformat isoformat unlink_ok t w fs =
     (if fs = Inaccessible then Inl OSError
      else if fs \<noteq> NoFile \<and> \<not> unlink_ok then Inl OSError
      else
        (let fresh = init env_refresh env_client fromisoformat t NoFile;
             error_reply = JObj [(''status'', JStr ''error'')]
         in case refresh isoformat w NoFile fresh of
              Inl e \<Rightarrow>
                Inr \<lparr>ret_val = error_reply, self_after = fresh, store_after = NoFile, sent = []\<rparr>
            | Inr r \<Rightarrow>
                (case slice_dots (refresh_token (self_after r)) of
                   Inl e \<Rightarrow> Inr (returning error_reply r)
                 | Inr prefix \<Rightarrow>
                     Inr (returning
                       (JObj [(''status'', JStr ''ok''),
                              (''message'', JStr ''Token reset and refreshed''),
                              (''refresh_token_prefix'', prefix)]) r))))"

section \<open>The Railway strategy (\<^verbatim>\<open>api_fixed.py\<close>)\<close>

text \<open>
  The object carries the three Railway credentials as well. The store is the value of
  the Railway variable \<^verbatim>\<open>GRANOLA_REFRESH_TOKEN\<close>; the platform is taken to hold the new
  value exactly when the upsert is answered without an error.
\<close>

record railway_state = token_state +
  railway_token :: string
  railway_env_id :: string
  railway_service_id :: string

record railway_world =
  workos_reply :: reply
  clock_expiry :: datetime
  railway_reply :: reply

definition init_fixed :: "string \<Rightarrow> string \<Rightarrow> string \<Rightarrow> string \<Rightarrow> string \<Rightarrow> railway_state" where
  "init_fixed env_refresh env_client env_railway env_environment env_service =
     \<lparr>access_token = JNull, refresh_token = JStr env_refresh, client_id = env_client,
      token_expiry = None, railway_token = env_railway,
      railway_env_id = env_environment, railway_service_id = env_service\<rparr>"

text \<open>\<^verbatim>\<open>_persist_refresh_token\<close>: its return value and the variable afterwards.\<close>

definition persist_refresh_token :: "json \<Rightarrow> reply \<Rightarrow> railway_state \<Rightarrow> json \<Rightarrow> bool \<times> json" where
  "persist_refresh_token new_token rr s var =
     (if railway_token s = [] \<or> railway_env_id s = [] \<or> railway_service_id s = []
      then (False, var)
      else
        (case post_json rr of
           Inl e \<Rightarrow> (False, var)
         | Inr j \<Rightarrow>
             (case as_dict j of
                Inl e \<Rightarrow> (False, var)
              | Inr result \<Rightarrow>
                  if truthy (get_item result ''errors'') then (False, var)
                  else (True, new_token))))"

text \<open>
  \<^verbatim>\<open>TokenState.refresh\<close> of \<^verbatim>\<open>api_fixed.py\<close>: nothing is sliced outside the \<^verbatim>\<open>try\<close>,
  so it always returns; the variable is written only when the token rotates.
\<close>

definition refresh_fixed ::
  "railway_world \<Rightarrow> json \<Rightarrow> railway_state \<Rightarrow> (bool, railway_state, json) outcome"
where
  "refresh_fixed w var s =
     (if \<not> truthy (refresh_token s) \<or> client_id s = [] then
        \<lparr>ret_val = False, self_after = s, store_after = var, sent = []\<rparr>
      else
        (let data = \<lparr>grant_client_id = client_id s, grant_refresh_token = refresh_token s\<rparr>;
             failed = (\<lambda>s' var'. \<lparr>ret_val = False, self_after = s', store_after = var',
                                    sent = [data]\<rparr>)
         in case post_json (workos_reply w) of
              Inl e \<Rightarrow> failed s var
            | Inr j \<Rightarrow>
                (case as_dict j of
                   Inl e \<Rightarrow> failed s var
                 | Inr result \<Rightarrow>
                     (let s1 = s\<lparr>access_token := get_item result ''access_token''\<rparr> in
                      case rotation (get_item result ''refresh_token'') s1 of
                        Inl e \<Rightarrow> failed s1 var
                      | Inr rot \<Rightarrow>
                          (let s2 = (case rot of None \<Rightarrow> s1
                                     | Some new_refresh \<Rightarrow> s1\<lparr>refresh_token := new_refresh\<rparr>);
                               var2 = (case rot of None \<Rightarrow> var
                                       | Some new_refresh \<Rightarrow>
                                           snd (persist_refresh_token new_refresh
                                                  (railway_reply w) s2 var))
                           in case expiry_after (clock_expiry w)
                                     (get_default result ''expires_in'' (JInt 3600)) of
                                Inl e \<Rightarrow> failed s2 var2
                              | Inr expiry \<Rightarrow>
                                  \<lparr>ret_val = True,
                                   self_after = s2\<lparr>token_expiry := Some expiry\<rparr>,
                                   store_after = var2, sent = [data]\<rparr>)))))"

text \<open>
  \<^verbatim>\<open>TokenState.get_token\<close> of \<^verbatim>\<open>api_fixed.py\<close>; only \<^verbatim>\<open>is_expired\<close> can raise, before
  anything is assigned or sent.
\<close>

definition get_token_fixed ::
  "datetime \<Rightarrow> railway_world \<Rightarrow> json \<Rightarrow> railway_state
     \<Rightarrow> pyerror + (json, railway_state, json) outcome"
where
  "get_token_fixed t w var s =
     (case is_expired t s of
        Inl e \<Rightarrow> Inl e
      | Inr expired \<Rightarrow>
          if expired then
            (let r = refresh_fixed w var s in
             if \<not> ret_val r then Inr (returning JNull r)
             else Inr (returning (access_token (self_after r)) r))
          else Inr \<lparr>ret_val = access_token s, self_after = s, store_after = var, sent = []\<rparr>)"

text \<open>
  The \<^verbatim>\<open>/health\<close> handler of \<^verbatim>\<open>api_fixed.py\<close>: the dict it builds, or the exception
  of \<^verbatim>\<open>get_token\<close>.
\<close>

definition health_fixed ::
  "(datetime \<Rightarrow> string) \<Rightarrow> datetime \<Rightarrow> railway_world \<Rightarrow> json \<Rightarrow> railway_state
     \<Rightarrow> (pyerror + json, railway_state, json) outcome"
where
  "health_fixed isoformat t w var s =
     (case get_token_fixed t w var s of
        Inl e \<Rightarrow> \<lparr>ret_val = Inl e, self_after = s, store_after = var, sent = []\<rparr>
      | Inr r \<Rightarrow>
          (let token = ret_val r; s' = self_after r in
           returning
             (Inr (JObj [(''status'', JStr (if truthy token then ''healthy'' else ''unhealthy'')),
                         (''token_valid'', JBool (token \<noteq> JNull)),
                         (''token_expiry'', expiry_field isoformat s'),
                         (''railway_persistence'', JBool (railway_token s' \<noteq> []))])) r))"

section \<open>The exchange common to both strategies\<close>

text \<open>
  The statements of the \<^verbatim>\<open>try\<close> block that both files share, without the save: the
  result is whether the block ran to its end, the object as the assignments made before
  an exception (if any) leave it, and the refresh token adopted by the rotation step
  (if any). \<open>refresh\<close> and \<open>refresh_fixed\<close> above follow the source line by line; the
  auxiliary facts below relate them to this function.
\<close>

definition exchange ::
  "reply \<Rightarrow> datetime \<Rightarrow> 'a token_state_scheme \<Rightarrow> bool \<times> 'a token_state_scheme \<times> json option"
where
  "exchange rp t s =
     (case post_json rp of
        Inl e \<Rightarrow> (False, s, None)
      | Inr j \<Rightarrow>
          (case as_dict j of
             Inl e \<Rightarrow> (False, s, None)
           | Inr result \<Rightarrow>
               (let s1 = s\<lparr>access_token := get_item result ''access_token''\<rparr> in
                case rotation (get_item result ''refresh_token'') s1 of
                  Inl e \<Rightarrow> (False, s1, None)
                | Inr rot \<Rightarrow>
                    (let s2 = (case rot of None \<Rightarrow> s1
                               | Some new_refresh \<Rightarrow> s1\<lparr>refresh_token := new_refresh\<rparr>)
                     in case expiry_after t (get_default result ''expires_in'' (JInt 3600)) of
                          Inl e \<Rightarrow> (False, s2, rot)
                        | Inr expiry \<Rightarrow> (True, s2\<lparr>token_expiry := Some expiry\<rparr>, rot)))))"

section \<open>Vocabulary of the properties\<close>

text \<open>
  A token field counts as absent when the programs' own test \<^verbatim>\<open>not self.access_token\<close>
  holds of it: \<^verbatim>\<open>None\<close> or the empty string (or another value Python counts as false).
\<close>

definition absent :: "json \<Rightarrow> bool" where
  "absent v = (\<not> truthy v)"

text \<open>
  The exchange with the provider fails before a result is at hand: the call raises, the
  status is 4xx or 5xx, the body is not JSON, or the JSON is no object.
\<close>

definition exchange_fails :: "reply \<Rightarrow> bool" where
  "exchange_fails rp =
     (case post_json rp of
        Inl e \<Rightarrow> True
      | Inr j \<Rightarrow> (case as_dict j of Inl e \<Rightarrow> True | Inr result \<Rightarrow> False))"

text \<open>
  The save of the Railway strategy fails: a credential is missing, the call raises,
  the status is 4xx or 5xx, the body is no JSON object, or the answer reports errors.
\<close>

definition upsert_fails :: "reply \<Rightarrow> railway_state \<Rightarrow> bool" where
  "upsert_fails rr z =
     (railway_token z = [] \<or> railway_env_id z = [] \<or> railway_service_id z = [] \<or>
      (case post_json rr of
         Inl e \<Rightarrow> True
       | Inr j \<Rightarrow>
           (case as_dict j of
              Inl e \<Rightarrow> True
            | Inr answer \<Rightarrow> truthy (get_item answer ''errors''))))"

text \<open>The access token and its expiry are both there or both missing.\<close>

definition paired :: "'a token_state_scheme \<Rightarrow> bool" where
  "paired s = (absent (access_token s) = (token_expiry s = None))"

text \<open>
  A result of the shape the identity provider documents: a non-empty string as access
  token, a string (or nothing) as refresh token, an integer (or nothing) as lifetime.
\<close>

fun nonempty_string :: "json \<Rightarrow> bool" where
  "nonempty_string (JStr s) = (s \<noteq> [])"
| "nonempty_string _ = False"

fun string_or_null :: "json \<Rightarrow> bool" where
  "string_or_null JNull = True"
| "string_or_null (JStr s) = True"
| "string_or_null _ = False"

fun is_integer :: "json \<Rightarrow> bool" where
  "is_integer (JInt n) = True"
| "is_integer _ = False"

definition well_formed_result :: "(string \<times> json) list \<Rightarrow> bool" where
  "well_formed_result result =
     (nonempty_string (get_item result ''access_token'') \<and>
      string_or_null (get_item result ''refresh_token'') \<and>
      is_integer (get_default result ''expires_in'' (JInt 3600)))"

text \<open>The lifetime of the result, added to the clock reading \<open>t\<close>, is a datetime.\<close>

definition lifetime_fits :: "datetime \<Rightarrow> (string \<times> json) list \<Rightarrow> bool" where
  "lifetime_fits t result =
     (case expiry_after t (get_default result ''expires_in'' (JInt 3600)) of
        Inl e \<Rightarrow> False
      | Inr expiry \<Rightarrow> True)"

text \<open>
  A refresh whose reply, when it yields a result, yields a well-formed one with a
  lifetime that fits.
\<close>

definition well_formed_world :: "world \<Rightarrow> bool" where
  "well_formed_world w =
     (case post_json (provider_reply w) of
        Inl e \<Rightarrow> True
      | Inr j \<Rightarrow>
          (case as_dict j of
             Inl e \<Rightarrow> True
           | Inr result \<Rightarrow> well_formed_result result \<and> lifetime_fits (clock_refresh w) result))"

text \<open>
  A file whose record, when it holds an expiry, holds a non-empty string as access
  token (every record written by \<^verbatim>\<open>_persist_state\<close> from a paired state is such).
\<close>

definition well_formed_file :: "file_state \<Rightarrow> bool" where
  "well_formed_file fs =
     (case fs of
        JsonFile (JObj state) \<Rightarrow>
          absent (get_item state ''token_expiry'') \<or>
          nonempty_string (get_item state ''access_token'')
      | _ \<Rightarrow> True)"

text \<open>
  The states of \<^verbatim>\<open>api.py\<close>'s object reachable by construction (which loads the file),
  refresh and reset, when every refresh happens in a world that satisfies \<open>P\<close> and every
  file read at construction satisfies \<open>Q\<close>.
\<close>

inductive reachable :: "(world \<Rightarrow> bool) \<Rightarrow> (file_state \<Rightarrow> bool) \<Rightarrow> token_state \<Rightarrow> bool"
  for P :: "world \<Rightarrow> bool" and Q :: "file_state \<Rightarrow> bool"
where
  constructed:
    "Q fs \<Longrightarrow> reachable P Q (init env_refresh env_client fromisoformat t fs)"
| refreshed:
    "reachable P Q s \<Longrightarrow> P w \<Longrightarrow> refresh isoformat w fs s = Inr r
       \<Longrightarrow> reachable P Q (self_after r)"
| reset:
    "P w
       \<Longrightarrow> reset_token env_refresh env_client fromisoformat isoformat unlink_ok t w fs = Inr r
       \<Longrightarrow> reachable P Q (self_after r)"

section \<open>Auxiliary facts\<close>

lemma as_dict_Inr: "as_dict j = Inr kv \<longleftrightarrow> j = JObj kv"
  by (cases j) auto

lemma load_refresh_token:
  "refresh_token (restore_access fromisoformat t state s) = refresh_token s"
  by (simp add: restore_access_def Let_def split: json.splits parsed_time.splits sum.splits)

lemma rotation_access_token:
  "rotation new_refresh (s\<lparr>access_token := a\<rparr>) = rotation new_refresh s"
  by (simp add: rotation_def)

lemma refresh_exchange:
  "refresh isoformat w fs s =
     (if \<not> truthy (refresh_token s) \<or> client_id s = [] then
        Inr \<lparr>ret_val = False, self_after = s, store_after = fs, sent = []\<rparr>
      else if \<not> sliceable (refresh_token s) then Inl TypeError
      else
        (case exchange (provider_reply w) (clock_refresh w) s of
           (ok, s', rot) \<Rightarrow>
             Inr \<lparr>ret_val = ok, self_after = s',
                  store_after =
                    (if ok then persist_state isoformat (clock_saved w) (write_result w) s' fs
                     else fs),
                  sent = [\<lparr>grant_client_id = client_id s,
                           grant_refresh_token = refresh_token s\<rparr>]\<rparr>))"
  by (simp add: refresh_def exchange_def Let_def split: sum.split option.split)

lemma refresh_fixed_exchange:
  "refresh_fixed w var s =
     (if \<not> truthy (refresh_token s) \<or> client_id s = [] then
        \<lparr>ret_val = False, self_after = s, store_after = var, sent = []\<rparr>
      else
        (case exchange (workos_reply w) (clock_expiry w) s of
           (ok, s', rot) \<Rightarrow>
             \<lparr>ret_val = ok, self_after = s',
              store_after =
                (case rot of None \<Rightarrow> var
                 | Some new_refresh \<Rightarrow>
                     snd (persist_refresh_token new_refresh (railway_reply w) s' var)),
              sent = [\<lparr>grant_client_id = client_id s,
                       grant_refresh_token = refresh_token s\<rparr>]\<rparr>))"
  by (simp add: refresh_fixed_def exchange_def Let_def persist_refresh_token_def
           split: sum.split option.split)

lemma exchange_fails_unchanged:
  "exchange_fails rp \<Longrightarrow> exchange rp t s = (False, s, None)"
  by (simp add: exchange_fails_def exchange_def split: sum.splits)

lemma exchange_result:
  assumes "post_json rp = Inr (JObj result)"
    and "rotation (get_item result ''refresh_token'') s = Inr rot"
    and "expiry_after t (get_default result ''expires_in'' (JInt 3600)) = Inr expiry"
  shows "exchange rp t s =
           (True,
            s\<lparr>access_token := get_item result ''access_token'',
              refresh_token := (case rot of None \<Rightarrow> refresh_token s | Some new_refresh \<Rightarrow> new_refresh),
              token_expiry := Some expiry\<rparr>,
            rot)"
  using assms
  by (simp add: exchange_def rotation_access_token Let_def split: option.split)

lemma exchange_rotated:
  assumes "post_json rp = Inr (JObj result)"
    and "exchange rp t s = (True, s', rot)"
    and "\<not> absent (get_item result ''refresh_token'')"
    and "\<not> py_eq (get_item result ''refresh_token'') (refresh_token s)"
  shows "refresh_token s' = get_item result ''refresh_token'' \<and>
         rot = Some (get_item result ''refresh_token'')"
  using assms
  by (auto simp: exchange_def rotation_def absent_def Let_def split: sum.splits if_splits)

lemma persist_refresh_token_ok:
  assumes "railway_token z \<noteq> []" "railway_env_id z \<noteq> []" "railway_service_id z \<noteq> []"
    and "post_json rr = Inr (JObj answer)" "absent (get_item answer ''errors'')"
  shows "persist_refresh_token new rr z var = (True, new)"
  using assms by (simp add: persist_refresh_token_def absent_def)

lemma persist_refresh_token_fails:
  "upsert_fails rr z \<Longrightarrow> persist_refresh_token new rr z var = (False, var)"
  by (auto simp: persist_refresh_token_def upsert_fails_def split: sum.splits)

lemma exchange_keeps_credentials:
  "exchange rp t z = (ok, z', rot) \<Longrightarrow>
     railway_token z' = railway_token z \<and> railway_env_id z' = railway_env_id z \<and>
     railway_service_id z' = railway_service_id z \<and> client_id z' = client_id z"
  by (auto simp: exchange_def Let_def split: sum.splits option.splits)

lemma rotation_well_formed:
  assumes "string_or_null new" and "truthy (refresh_token s) \<longrightarrow> sliceable (refresh_token s)"
  shows "\<exists>rot. rotation new s = Inr rot"
  using assms by (cases new) (auto simp: rotation_def)

lemma exchange_without_access_token:
  assumes "post_json rp = Inr (JObj result)"
    and "map_of result ''access_token'' = None"
    and "string_or_null (get_item result ''refresh_token'')"
    and "expiry_after t (get_default result ''expires_in'' (JInt 3600)) = Inr expiry"
    and "sliceable (refresh_token s)"
  shows "\<exists>s' rot. exchange rp t s = (True, s', rot) \<and> access_token s' = JNull \<and>
                   token_expiry s' = Some expiry"
proof -
  from assms(3,5) obtain rot where "rotation (get_item result ''refresh_token'') s = Inr rot"
    using rotation_well_formed by blast
  from exchange_result [OF assms(1) this assms(4)] assms(2) show ?thesis
    by (simp add: get_item_def)
qed

lemma nonempty_string_truthy: "nonempty_string v \<Longrightarrow> truthy v"
  by (cases v) auto

lemma init_paired:
  assumes "well_formed_file fs"
  shows "paired (init env_refresh env_client fromisoformat t fs)"
proof (cases fs)
  case (JsonFile doc)
  show ?thesis
  proof (cases doc)
    case (JObj state)
    with JsonFile assms
    have "absent (get_item state ''token_expiry'') \<or>
          nonempty_string (get_item state ''access_token'')"
      by (simp add: well_formed_file_def)
    then show ?thesis
      using JsonFile JObj
      by (auto simp: init_def load_persisted_state_def restore_access_def paired_def absent_def
            Let_def nonempty_string_truthy
            split: json.splits parsed_time.splits sum.splits)
  qed (use JsonFile in \<open>simp_all add: init_def load_persisted_state_def paired_def absent_def\<close>)
qed (simp_all add: init_def load_persisted_state_def paired_def absent_def)

lemma exchange_paired:
  assumes wf: "well_formed_world w" and inv: "paired s"
    and ex: "exchange (provider_reply w) (clock_refresh w) s = (ok, s', rot)"
    and sl: "truthy (refresh_token s) \<longrightarrow> sliceable (refresh_token s)"
  shows "paired s'"
proof (cases "exchange_fails (provider_reply w)")
  case True
  with ex inv show ?thesis by (simp add: exchange_fails_unchanged)
next
  case False
  then obtain result where res: "post_json (provider_reply w) = Inr (JObj result)"
    by (auto simp: exchange_fails_def as_dict_Inr split: sum.splits)
  with wf have shape: "well_formed_result result" and fits: "lifetime_fits (clock_refresh w) result"
    by (simp_all add: well_formed_world_def)
  from shape sl obtain rot' where r: "rotation (get_item result ''refresh_token'') s = Inr rot'"
    using rotation_well_formed [of "get_item result ''refresh_token''" s]
    by (auto simp: well_formed_result_def)
  from fits obtain expiry
    where e: "expiry_after (clock_refresh w) (get_default result ''expires_in'' (JInt 3600)) =
                Inr expiry"
    by (auto simp: lifetime_fits_def split: sum.splits)
  from shape have tok: "truthy (get_item result ''access_token'')"
    by (simp add: well_formed_result_def nonempty_string_truthy)
  from exchange_result [OF res r e] ex tok show ?thesis
    by (auto simp: paired_def absent_def)
qed

lemma refresh_paired:
  assumes "well_formed_world w" and "paired s"
    and "refresh isoformat w fs s = Inr r"
  shows "paired (self_after r)"
proof (cases "\<not> truthy (refresh_token s) \<or> client_id s = []")
  case True
  with assms show ?thesis by (auto simp: refresh_exchange)
next
  case False
  with assms(3) have sl: "sliceable (refresh_token s)"
    by (auto simp: refresh_exchange split: if_splits)
  obtain ok s' rot where ex: "exchange (provider_reply w) (clock_refresh w) s = (ok, s', rot)"
    by (cases "exchange (provider_reply w) (clock_refresh w) s") auto
  with False sl assms(3) have "self_after r = s'"
    by (auto simp: refresh_exchange)
  with exchange_paired [OF assms(1,2) ex] sl show ?thesis by simp
qed

lemma reset_token_paired:
  assumes "well_formed_world w"
    and "reset_token env_refresh env_client fromisoformat isoformat unlink_ok t w fs = Inr r"
  shows "paired (self_after r)"
proof -
  let ?fresh = "init env_refresh env_client fromisoformat t NoFile"
  have fresh: "paired ?fresh"
    by (rule init_paired) (simp add: well_formed_file_def)
  show ?thesis
  proof (cases "refresh isoformat w NoFile ?fresh")
    case (Inl e)
    with assms(2) fresh show ?thesis
      by (auto simp: reset_token_def Let_def split: if_splits)
  next
    case (Inr r')
    from refresh_paired [OF assms(1) fresh Inr] have "paired (self_after r')" .
    with assms(2) Inr show ?thesis
      by (auto simp: reset_token_def Let_def returning_def split: if_splits sum.splits)
  qed
qed

section \<open>Rotation of the refresh token\<close>

text \<open>
  C1 as stated fails: a refresh can succeed and rotate the token while the save fails,
  and then the saved record does not hold the new value. Under the file strategy the
  file could not be opened and keeps the old record; under the Railway strategy no
  Railway credentials are configured and the variable keeps the old value. Moreover a
  reply whose refresh token is the empty string differs from the token sent and is not
  adopted: the rotation step asks for a value Python counts as true.
\<close>

theorem rotated_token_not_saved_counterexample:
  "refresh (\<lambda>t. ''2026-11-04T13:00:00'')
     \<lparr>provider_reply = Reply 200 (Json (JObj [(''access_token'', JStr ''at-1''),
                                               (''refresh_token'', JStr ''rt-new''),
                                               (''expires_in'', JInt 3600)])),
      clock_refresh = 63929390400000000, clock_saved = 63929390400000001, write_result = OpenFails\<rparr>
     (JsonFile (JObj [(''refresh_token'', JStr ''rt-old''), (''access_token'', JNull),
                      (''token_expiry'', JNull), (''updated_at'', JStr ''2026-11-04T11:00:00'')]))
     \<lparr>access_token = JNull, refresh_token = JStr ''rt-old'', client_id = ''client-1'',
      token_expiry = None\<rparr>
   = Inr \<lparr>ret_val = True,
          self_after = \<lparr>access_token = JStr ''at-1'', refresh_token = JStr ''rt-new'',
                         client_id = ''client-1'', token_expiry = Some 63929394000000000\<rparr>,
          store_after =
            JsonFile (JObj [(''refresh_token'', JStr ''rt-old''), (''access_token'', JNull),
                            (''token_expiry'', JNull),
                            (''updated_at'', JStr ''2026-11-04T11:00:00'')]),
          sent = [\<lparr>grant_client_id = ''client-1'', grant_refresh_token = JStr ''rt-old''\<rparr>]\<rparr>
   \<and> refresh_fixed
       \<lparr>workos_reply = Reply 200 (Json (JObj [(''access_token'', JStr ''at-1''),
                                               (''refresh_token'', JStr ''rt-new''),
                                               (''expires_in'', JInt 3600)])),
        clock_expiry = 63929390400000000, railway_reply = NoReply\<rparr>
       (JStr ''rt-old'')
       \<lparr>access_token = JNull, refresh_token = JStr ''rt-old'', client_id = ''client-1'',
        token_expiry = None, railway_token = [], railway_env_id = [],
        railway_service_id = []\<rparr>
     = \<lparr>ret_val = True,
        self_after = \<lparr>access_token = JStr ''at-1'', refresh_token = JStr ''rt-new'',
                       client_id = ''client-1'', token_expiry = Some 63929394000000000,
                       railway_token = [], railway_env_id = [], railway_service_id = []\<rparr>,
        store_after = JStr ''rt-old'',
        sent = [\<lparr>grant_client_id = ''client-1'', grant_refresh_token = JStr ''rt-old''\<rparr>]\<rparr>
   \<and> refresh (\<lambda>t. ''2026-11-04T13:00:00'')
       \<lparr>provider_reply = Reply 200 (Json (JObj [(''access_token'', JStr ''at-1''),
                                                 (''refresh_token'', JStr []),
                                                 (''expires_in'', JInt 3600)])),
        clock_refresh = 63929390400000000, clock_saved = 63929390400000001, write_result = Written\<rparr>
       NoFile
       \<lparr>access_token = JNull, refresh_token = JStr ''rt-old'', client_id = ''client-1'',
        token_expiry = None\<rparr>
     = Inr \<lparr>ret_val = True,
            self_after = \<lparr>access_token = JStr ''at-1'', refresh_token = JStr ''rt-old'',
                           client_id = ''client-1'', token_expiry = Some 63929394000000000\<rparr>,
            store_after =
              JsonFile (JObj [(''refresh_token'', JStr ''rt-old''),
                              (''access_token'', JStr ''at-1''),
                              (''token_expiry'', JStr ''2026-11-04T13:00:00''),
                              (''updated_at'', JStr ''2026-11-04T13:00:00'')]),
            sent = [\<lparr>grant_client_id = ''client-1'', grant_refresh_token = JStr ''rt-old''\<rparr>]\<rparr>"
  by (simp add: refresh_def refresh_fixed_def rotation_def get_item_def get_default_def
        expiry_after_def datetime_add_def checked_def max_datetime_def persist_state_def
        persist_refresh_token_def state_record_def Let_def)

text \<open>
  C1, amended. For every successful call to \<^verbatim>\<open>refresh\<close> whose reply carries a non-empty
  refresh token different from the one sent, the object's refresh token afterwards is
  the new value; and the saved record holds the new value whenever the save itself
  succeeds: the file was written (file strategy), or the Railway credentials are
  configured and the upsert was answered without an error (Railway strategy).
\<close>

theorem rotated_refresh_token_is_adopted_and_saved:
  "(refresh isoformat w fs s = Inr r \<and> ret_val r \<and>
    post_json (provider_reply w) = Inr (JObj result) \<and>
    \<not> absent (get_item result ''refresh_token'') \<and>
    \<not> py_eq (get_item result ''refresh_token'') (refresh_token s) \<longrightarrow>
      refresh_token (self_after r) = get_item result ''refresh_token'' \<and>
      (write_result w = Written \<longrightarrow>
         (\<exists>saved. store_after r = JsonFile (JObj saved) \<and>
                  get_item saved ''refresh_token'' = get_item result ''refresh_token'')))
   \<and> (ret_val (refresh_fixed v var z) \<and>
       post_json (workos_reply v) = Inr (JObj result') \<and>
       \<not> absent (get_item result' ''refresh_token'') \<and>
       \<not> py_eq (get_item result' ''refresh_token'') (refresh_token z) \<longrightarrow>
      refresh_token (self_after (refresh_fixed v var z)) = get_item result' ''refresh_token'' \<and>
      (railway_token z \<noteq> [] \<and> railway_env_id z \<noteq> [] \<and> railway_service_id z \<noteq> [] \<and>
       post_json (railway_reply v) = Inr (JObj answer) \<and> absent (get_item answer ''errors'') \<longrightarrow>
         store_after (refresh_fixed v var z) = get_item result' ''refresh_token''))"
proof -
  have file_part:
    "refresh_token (self_after r) = get_item result ''refresh_token'' \<and>
      (write_result w = Written \<longrightarrow>
         (\<exists>saved. store_after r = JsonFile (JObj saved) \<and>
                  get_item saved ''refresh_token'' = get_item result ''refresh_token''))"
    if run: "refresh isoformat w fs s = Inr r" and ok: "ret_val r"
      and res: "post_json (provider_reply w) = Inr (JObj result)"
      and new: "\<not> absent (get_item result ''refresh_token'')"
      and diff: "\<not> py_eq (get_item result ''refresh_token'') (refresh_token s)"
  proof -
    obtain b s' rot where ex: "exchange (provider_reply w) (clock_refresh w) s = (b, s', rot)"
      by (cases "exchange (provider_reply w) (clock_refresh w) s") auto
    from run ok ex have b: "b" and r: "self_after r = s'"
      and st: "store_after r = persist_state isoformat (clock_saved w) (write_result w) s' fs"
      by (auto simp: refresh_exchange split: if_splits)
    from exchange_rotated [OF res ex [unfolded b [THEN eqTrueI]] new diff]
    have adopted: "refresh_token s' = get_item result ''refresh_token''" by simp
    with r st show ?thesis
      by (auto simp: persist_state_def state_record_def get_item_def)
  qed
  have railway_part:
    "refresh_token (self_after (refresh_fixed v var z)) = get_item result' ''refresh_token'' \<and>
      (railway_token z \<noteq> [] \<and> railway_env_id z \<noteq> [] \<and> railway_service_id z \<noteq> [] \<and>
       post_json (railway_reply v) = Inr (JObj answer) \<and> absent (get_item answer ''errors'') \<longrightarrow>
         store_after (refresh_fixed v var z) = get_item result' ''refresh_token'')"
    if ok: "ret_val (refresh_fixed v var z)"
      and res: "post_json (workos_reply v) = Inr (JObj result')"
      and new: "\<not> absent (get_item result' ''refresh_token'')"
      and diff: "\<not> py_eq (get_item result' ''refresh_token'') (refresh_token z)"
  proof -
    obtain b z' rot where ex: "exchange (workos_reply v) (clock_expiry v) z = (b, z', rot)"
      by (cases "exchange (workos_reply v) (clock_expiry v) z") auto
    from ok ex have b: "b" and r: "self_after (refresh_fixed v var z) = z'"
      and st: "store_after (refresh_fixed v var z) =
                 (case rot of None \<Rightarrow> var
                  | Some new_refresh \<Rightarrow>
                      snd (persist_refresh_token new_refresh (railway_reply v) z' var))"
      by (auto simp: refresh_fixed_exchange split: if_splits)
    from exchange_rotated [OF res ex [unfolded b [THEN eqTrueI]] new diff]
    have adopted: "refresh_token z' = get_item result' ''refresh_token''"
      and rot: "rot = Some (get_item result' ''refresh_token'')" by simp_all
    from exchange_keeps_credentials [OF ex]
    have creds: "railway_token z' = railway_token z" "railway_env_id z' = railway_env_id z"
      "railway_service_id z' = railway_service_id z" by simp_all
    show ?thesis
      using r st adopted rot creds
      by (auto simp: persist_refresh_token_ok)
  qed
  from file_part railway_part show ?thesis by blast
qed

theorem rotated_refresh_token_is_adopted_and_saved_witness:
  "refresh (\<lambda>t. ''2026-11-04T13:00:00'')
     \<lparr>provider_reply = Reply 200 (Json (JObj [(''access_token'', JStr ''at-1''),
                                               (''refresh_token'', JStr ''rt-new''),
                                               (''expires_in'', JInt 3600)])),
      clock_refresh = 63929390400000000, clock_saved = 63929390400000001, write_result = Written\<rparr>
     NoFile
     \<lparr>access_token = JNull, refresh_token = JStr ''rt-old'', client_id = ''client-1'',
      token_expiry = None\<rparr>
   = Inr \<lparr>ret_val = True,
          self_after = \<lparr>access_token = JStr ''at-1'', refresh_token = JStr ''rt-new'',
                         client_id = ''client-1'', token_expiry = Some 63929394000000000\<rparr>,
          store_after =
            JsonFile (JObj [(''refresh_token'', JStr ''rt-new''),
                            (''access_token'', JStr ''at-1''),
                            (''token_expiry'', JStr ''2026-11-04T13:00:00''),
                            (''updated_at'', JStr ''2026-11-04T13:00:00'')]),
          sent = [\<lparr>grant_client_id = ''client-1'', grant_refresh_token = JStr ''rt-old''\<rparr>]\<rparr>
   \<and> (\<exists>saved.
        JsonFile (JObj [(''refresh_token'', JStr ''rt-new''), (''access_token'', JStr ''at-1''),
                        (''token_expiry'', JStr ''2026-11-04T13:00:00''),
                        (''updated_at'', JStr ''2026-11-04T13:00:00'')]) = JsonFile (JObj saved) \<and>
        get_item saved ''refresh_token'' = JStr ''rt-new'')
   \<and> refresh_token (self_after (refresh_fixed
        \<lparr>workos_reply = Reply 200 (Json (JObj [(''access_token'', JStr ''at-1''),
                                                (''refresh_token'', JStr ''rt-new''),
                                                (''expires_in'', JInt 3600)])),
         clock_expiry = 63929390400000000,
         railway_reply = Reply 200 (Json (JObj [(''data'', JObj [(''variableUpsert'', JBool True)])]))\<rparr>
        (JStr ''rt-old'')
        \<lparr>access_token = JNull, refresh_token = JStr ''rt-old'', client_id = ''client-1'',
         token_expiry = None, railway_token = ''railway-key'', railway_env_id = ''env-1'',
         railway_service_id = ''service-1''\<rparr>)) = JStr ''rt-new''
   \<and> store_after (refresh_fixed
        \<lparr>workos_reply = Reply 200 (Json (JObj [(''access_token'', JStr ''at-1''),
                                                (''refresh_token'', JStr ''rt-new''),
                                                (''expires_in'', JInt 3600)])),
         clock_expiry = 63929390400000000,
         railway_reply = Reply 200 (Json (JObj [(''data'', JObj [(''variableUpsert'', JBool True)])]))\<rparr>
        (JStr ''rt-old'')
        \<lparr>access_token = JNull, refresh_token = JStr ''rt-old'', client_id = ''client-1'',
         token_expiry = None, railway_token = ''railway-key'', railway_env_id = ''env-1'',
         railway_service_id = ''service-1''\<rparr>) = JStr ''rt-new''"
proof -
  let ?iso = "\<lambda>t::int. ''2026-11-04T13:00:00''"
  let ?result = "[(''access_token'', JStr ''at-1''), (''refresh_token'', JStr ''rt-new''),
                  (''expires_in'', JInt 3600)]"
  let ?answer = "[(''data'', JObj [(''variableUpsert'', JBool True)])]"
  let ?w = "\<lparr>provider_reply = Reply 200 (Json (JObj ?result)),
              clock_refresh = 63929390400000000, clock_saved = 63929390400000001, write_result = Written\<rparr>"
  let ?s = "\<lparr>access_token = JNull, refresh_token = JStr ''rt-old'', client_id = ''client-1'',
              token_expiry = None\<rparr>"
  let ?r = "\<lparr>ret_val = True,
          self_after = \<lparr>access_token = JStr ''at-1'', refresh_token = JStr ''rt-new'',
                         client_id = ''client-1'', token_expiry = Some 63929394000000000\<rparr>,
          store_after =
            JsonFile (JObj [(''refresh_token'', JStr ''rt-new''),
                            (''access_token'', JStr ''at-1''),
                            (''token_expiry'', JStr ''2026-11-04T13:00:00''),
                            (''updated_at'', JStr ''2026-11-04T13:00:00'')]),
          sent = [\<lparr>grant_client_id = ''client-1'', grant_refresh_token = JStr ''rt-old''\<rparr>]\<rparr>"
  let ?v = "\<lparr>workos_reply = Reply 200 (Json (JObj ?result)), clock_expiry = 63929390400000000,
              railway_reply = Reply 200 (Json (JObj ?answer))\<rparr>"
  let ?z = "\<lparr>access_token = JNull, refresh_token = JStr ''rt-old'', client_id = ''client-1'',
              token_expiry = None, railway_token = ''railway-key'', railway_env_id = ''env-1'',
              railway_service_id = ''service-1''\<rparr>"
  have run: "refresh ?iso ?w NoFile ?s = Inr ?r"
    by (simp add: refresh_def rotation_def get_item_def get_default_def expiry_after_def
          datetime_add_def checked_def max_datetime_def persist_state_def state_record_def
          Let_def)
  have file_hyps:
    "ret_val ?r \<and> post_json (provider_reply ?w) = Inr (JObj ?result) \<and>
     \<not> absent (get_item ?result ''refresh_token'') \<and>
     \<not> py_eq (get_item ?result ''refresh_token'') (refresh_token ?s) \<and>
     write_result ?w = Written"
    by (simp add: absent_def get_item_def)
  have railway_hyps:
    "ret_val (refresh_fixed ?v (JStr ''rt-old'') ?z) \<and>
     post_json (workos_reply ?v) = Inr (JObj ?result) \<and>
     \<not> absent (get_item ?result ''refresh_token'') \<and>
     \<not> py_eq (get_item ?result ''refresh_token'') (refresh_token ?z) \<and>
     railway_token ?z \<noteq> [] \<and> railway_env_id ?z \<noteq> [] \<and> railway_service_id ?z \<noteq> [] \<and>
     post_json (railway_reply ?v) = Inr (JObj ?answer) \<and> absent (get_item ?answer ''errors'')"
    by (simp add: refresh_fixed_def rotation_def absent_def get_item_def get_default_def
          expiry_after_def datetime_add_def checked_def max_datetime_def Let_def)
  note inst = rotated_refresh_token_is_adopted_and_saved
    [of ?iso ?w NoFile ?s ?r ?result ?v "JStr ''rt-old''" ?z ?result ?answer]
  from inst run file_hyps have file_concl:
    "\<exists>saved. store_after ?r = JsonFile (JObj saved) \<and>
              get_item saved ''refresh_token'' = get_item ?result ''refresh_token''"
    by blast
  from inst railway_hyps have railway_concl:
    "refresh_token (self_after (refresh_fixed ?v (JStr ''rt-old'') ?z)) =
       get_item ?result ''refresh_token'' \<and>
     store_after (refresh_fixed ?v (JStr ''rt-old'') ?z) = get_item ?result ''refresh_token''"
    by blast
  from run file_concl railway_concl show ?thesis
    by (simp add: get_item_def)
qed

section \<open>A failed refresh\<close>

text \<open>
  C2 as stated fails: \<^verbatim>\<open>refresh\<close> assigns the access token before it computes the
  expiry, so an exception raised after the assignment (here \<^verbatim>\<open>timedelta\<close> rejects the
  string \<^verbatim>\<open>"3600"\<close>) is caught, \<^verbatim>\<open>False\<close> is returned, and the access token has
  changed.
\<close>

theorem late_failure_mutates_counterexample:
  "refresh (\<lambda>t. ''2026-11-04T13:00:00'')
     \<lparr>provider_reply = Reply 200 (Json (JObj [(''access_token'', JStr ''at-2''),
                                               (''expires_in'', JStr ''3600'')])),
      clock_refresh = 63929390400000000, clock_saved = 63929390400000001, write_result = Written\<rparr>
     NoFile
     \<lparr>access_token = JStr ''at-1'', refresh_token = JStr ''rt-old'', client_id = ''client-1'',
      token_expiry = Some 63929386800000000\<rparr>
   = Inr \<lparr>ret_val = False,
          self_after = \<lparr>access_token = JStr ''at-2'', refresh_token = JStr ''rt-old'',
                         client_id = ''client-1'', token_expiry = Some 63929386800000000\<rparr>,
          store_after = NoFile,
          sent = [\<lparr>grant_client_id = ''client-1'', grant_refresh_token = JStr ''rt-old''\<rparr>]\<rparr>
   \<and> refresh_fixed
       \<lparr>workos_reply = Reply 200 (Json (JObj [(''access_token'', JStr ''at-2''),
                                               (''expires_in'', JStr ''3600'')])),
        clock_expiry = 63929390400000000, railway_reply = NoReply\<rparr>
       (JStr ''rt-old'')
       \<lparr>access_token = JStr ''at-1'', refresh_token = JStr ''rt-old'', client_id = ''client-1'',
        token_expiry = Some 63929386800000000, railway_token = ''railway-key'', railway_env_id = ''env-1'',
        railway_service_id = ''service-1''\<rparr>
     = \<lparr>ret_val = False,
        self_after = \<lparr>access_token = JStr ''at-2'', refresh_token = JStr ''rt-old'',
                       client_id = ''client-1'', token_expiry = Some 63929386800000000,
                       railway_token = ''railway-key'', railway_env_id = ''env-1'',
                       railway_service_id = ''service-1''\<rparr>,
        store_after = JStr ''rt-old'',
        sent = [\<lparr>grant_client_id = ''client-1'', grant_refresh_token = JStr ''rt-old''\<rparr>]\<rparr>"
  by (simp add: refresh_def refresh_fixed_def rotation_def get_item_def get_default_def
        expiry_after_def datetime_add_def checked_def max_datetime_def Let_def)

text \<open>
  C2, amended. For every call to \<^verbatim>\<open>refresh\<close> that returns failure because the refresh
  token or the client id is missing, because the provider call raises, because the
  provider rejects the grant with a 4xx or 5xx status, or because the body is not a
  JSON object, the object (access token, refresh token, client id, expiry) and the
  store are what they were before the call, and the caller receives the failure.
  Under the file strategy the call returns whenever a credential is missing or the
  refresh token can be sliced (every string can); under the Railway strategy it always
  returns.
\<close>

theorem failed_refresh_leaves_state_unchanged:
  "((absent (refresh_token s) \<or> client_id s = [] \<or> exchange_fails (provider_reply w)) \<and>
    refresh isoformat w fs s = Inr r \<longrightarrow>
      \<not> ret_val r \<and> self_after r = s \<and> store_after r = fs)
   \<and> (absent (refresh_token s) \<or> client_id s = [] \<or> sliceable (refresh_token s) \<longrightarrow>
        (\<exists>r. refresh isoformat w fs s = Inr r))
   \<and> (absent (refresh_token z) \<or> client_id z = [] \<or> exchange_fails (workos_reply v) \<longrightarrow>
        \<not> ret_val (refresh_fixed v var z) \<and> self_after (refresh_fixed v var z) = z \<and>
        store_after (refresh_fixed v var z) = var)"
proof -
  have unchanged:
    "(absent (refresh_token s) \<or> client_id s = [] \<or> exchange_fails (provider_reply w)) \<and>
     refresh isoformat w fs s = Inr r \<longrightarrow>
       \<not> ret_val r \<and> self_after r = s \<and> store_after r = fs"
    by (auto simp: refresh_exchange absent_def exchange_fails_unchanged split: if_splits)
  have returns:
    "absent (refresh_token s) \<or> client_id s = [] \<or> sliceable (refresh_token s) \<longrightarrow>
       (\<exists>r. refresh isoformat w fs s = Inr r)"
    by (auto simp: refresh_exchange absent_def split: prod.splits)
  have railway:
    "absent (refresh_token z) \<or> client_id z = [] \<or> exchange_fails (workos_reply v) \<longrightarrow>
       \<not> ret_val (refresh_fixed v var z) \<and> self_after (refresh_fixed v var z) = z \<and>
       store_after (refresh_fixed v var z) = var"
    by (auto simp: refresh_fixed_exchange absent_def exchange_fails_unchanged)
  from unchanged returns railway show ?thesis by blast
qed

theorem failed_refresh_leaves_state_unchanged_witness:
  "refresh (\<lambda>t. ''2026-11-04T13:00:00'')
     \<lparr>provider_reply = Reply 400 (Json (JObj [(''error'', JStr ''invalid_grant'')])),
      clock_refresh = 63929390400000000, clock_saved = 63929390400000001, write_result = Written\<rparr>
     NoFile
     \<lparr>access_token = JStr ''at-1'', refresh_token = JStr ''rt-old'', client_id = ''client-1'',
      token_expiry = Some 63929386800000000\<rparr>
   = Inr \<lparr>ret_val = False,
          self_after = \<lparr>access_token = JStr ''at-1'', refresh_token = JStr ''rt-old'',
                         client_id = ''client-1'', token_expiry = Some 63929386800000000\<rparr>,
          store_after = NoFile,
          sent = [\<lparr>grant_client_id = ''client-1'', grant_refresh_token = JStr ''rt-old''\<rparr>]\<rparr>
   \<and> \<not> ret_val (refresh_fixed
          \<lparr>workos_reply = Reply 400 (Json (JObj [(''error'', JStr ''invalid_grant'')])),
           clock_expiry = 63929390400000000, railway_reply = NoReply\<rparr>
          (JStr ''rt-old'')
          \<lparr>access_token = JStr ''at-1'', refresh_token = JStr ''rt-old'',
           client_id = ''client-1'', token_expiry = Some 63929386800000000, railway_token = ''railway-key'',
           railway_env_id = ''env-1'', railway_service_id = ''service-1''\<rparr>)
   \<and> self_after (refresh_fixed
          \<lparr>workos_reply = Reply 400 (Json (JObj [(''error'', JStr ''invalid_grant'')])),
           clock_expiry = 63929390400000000, railway_reply = NoReply\<rparr>
          (JStr ''rt-old'')
          \<lparr>access_token = JStr ''at-1'', refresh_token = JStr ''rt-old'',
           client_id = ''client-1'', token_expiry = Some 63929386800000000, railway_token = ''railway-key'',
           railway_env_id = ''env-1'', railway_service_id = ''service-1''\<rparr>)
       = \<lparr>access_token = JStr ''at-1'', refresh_token = JStr ''rt-old'',
          client_id = ''client-1'', token_expiry = Some 63929386800000000, railway_token = ''railway-key'',
          railway_env_id = ''env-1'', railway_service_id = ''service-1''\<rparr>"
proof -
  let ?iso = "\<lambda>t::int. ''2026-11-04T13:00:00''"
  let ?rejection = "Reply 400 (Json (JObj [(''error'', JStr ''invalid_grant'')]))"
  let ?w = "\<lparr>provider_reply = ?rejection, clock_refresh = 63929390400000000, clock_saved = 63929390400000001,
              write_result = Written\<rparr>"
  let ?s = "\<lparr>access_token = JStr ''at-1'', refresh_token = JStr ''rt-old'',
              client_id = ''client-1'', token_expiry = Some 63929386800000000\<rparr>"
  let ?v = "\<lparr>workos_reply = ?rejection, clock_expiry = 63929390400000000, railway_reply = NoReply\<rparr>"
  let ?z = "\<lparr>access_token = JStr ''at-1'', refresh_token = JStr ''rt-old'',
              client_id = ''client-1'', token_expiry = Some 63929386800000000, railway_token = ''railway-key'',
              railway_env_id = ''env-1'', railway_service_id = ''service-1''\<rparr>"
  note inst = failed_refresh_leaves_state_unchanged [of ?s ?w ?iso NoFile _ ?z ?v "JStr ''rt-old''"]
  have rejected: "exchange_fails (provider_reply ?w) \<and> exchange_fails (workos_reply ?v)"
    by (simp add: exchange_fails_def)
  have string: "sliceable (refresh_token ?s)"
    by simp
  from inst string obtain r where run: "refresh ?iso ?w NoFile ?s = Inr r"
    by blast
  from failed_refresh_leaves_state_unchanged [of ?s ?w ?iso NoFile r ?z ?v "JStr ''rt-old''"]
    rejected run
  have same: "\<not> ret_val r \<and> self_after r = ?s \<and> store_after r = NoFile"
    and railway: "\<not> ret_val (refresh_fixed ?v (JStr ''rt-old'') ?z) \<and>
                  self_after (refresh_fixed ?v (JStr ''rt-old'') ?z) = ?z"
    by blast+
  have grants: "sent r = [\<lparr>grant_client_id = ''client-1'', grant_refresh_token = JStr ''rt-old''\<rparr>]"
    using run by (auto simp: refresh_exchange split: prod.splits)
  from same grants have "r = \<lparr>ret_val = False, self_after = ?s, store_after = NoFile,
      sent = [\<lparr>grant_client_id = ''client-1'', grant_refresh_token = JStr ''rt-old''\<rparr>]\<rparr>"
    by (cases r) simp
  with run railway show ?thesis by simp
qed

section \<open>A reply without an access token\<close>

text \<open>
  C4 as stated fails: a reply with status 200 whose JSON object has no access token
  is not treated as a rejection. \<^verbatim>\<open>refresh\<close> returns success, clears the access token
  that was held and sets a new expiry (the lifetime defaults to 3600 seconds).
\<close>

theorem missing_access_token_counterexample:
  "refresh (\<lambda>t. ''2026-11-04T13:00:00'')
     \<lparr>provider_reply = Reply 200 (Json (JObj [(''token_type'', JStr ''Bearer''),
                                               (''expires_in'', JInt 3600)])),
      clock_refresh = 63929390400000000, clock_saved = 63929390400000001, write_result = Written\<rparr>
     NoFile
     \<lparr>access_token = JStr ''at-1'', refresh_token = JStr ''rt-old'', client_id = ''client-1'',
      token_expiry = Some 63929386800000000\<rparr>
   = Inr \<lparr>ret_val = True,
          self_after = \<lparr>access_token = JNull, refresh_token = JStr ''rt-old'',
                         client_id = ''client-1'', token_expiry = Some 63929394000000000\<rparr>,
          store_after =
            JsonFile (JObj [(''refresh_token'', JStr ''rt-old''), (''access_token'', JNull),
                            (''token_expiry'', JStr ''2026-11-04T13:00:00''),
                            (''updated_at'', JStr ''2026-11-04T13:00:00'')]),
          sent = [\<lparr>grant_client_id = ''client-1'', grant_refresh_token = JStr ''rt-old''\<rparr>]\<rparr>
   \<and> refresh_fixed
       \<lparr>workos_reply = Reply 200 (Json (JObj [(''token_type'', JStr ''Bearer''),
                                               (''expires_in'', JInt 3600)])),
        clock_expiry = 63929390400000000, railway_reply = NoReply\<rparr>
       (JStr ''rt-old'')
       \<lparr>access_token = JStr ''at-1'', refresh_token = JStr ''rt-old'', client_id = ''client-1'',
        token_expiry = Some 63929386800000000, railway_token = ''railway-key'', railway_env_id = ''env-1'',
        railway_service_id = ''service-1''\<rparr>
     = \<lparr>ret_val = True,
        self_after = \<lparr>access_token = JNull, refresh_token = JStr ''rt-old'',
                       client_id = ''client-1'', token_expiry = Some 63929394000000000,
                       railway_token = ''railway-key'', railway_env_id = ''env-1'',
                       railway_service_id = ''service-1''\<rparr>,
        store_after = JStr ''rt-old'',
        sent = [\<lparr>grant_client_id = ''client-1'', grant_refresh_token = JStr ''rt-old''\<rparr>]\<rparr>"
  by (simp add: refresh_def refresh_fixed_def rotation_def get_item_def get_default_def
        expiry_after_def datetime_add_def checked_def max_datetime_def persist_state_def
        state_record_def Let_def)

text \<open>
  C4, amended. For every reply that passes \<^verbatim>\<open>raise_for_status\<close> and whose body is a
  JSON object without an access token (its refresh token a string or missing, its
  lifetime missing or one that \<^verbatim>\<open>timedelta\<close> accepts and that, added to the clock, stays
  within the range of \<^verbatim>\<open>datetime\<close>), and every object holding a client id and a
  non-empty string as refresh token, \<^verbatim>\<open>refresh\<close> returns success, leaves the access
  token absent and sets the expiry to the clock plus the lifetime. The object is then
  expired at every time, and a \<^verbatim>\<open>get_token\<close> that had to refresh hands no token to its
  caller.
\<close>

theorem missing_access_token_is_not_a_rejection:
  "(post_json (provider_reply w) = Inr (JObj result) \<and>
    map_of result ''access_token'' = None \<and>
    string_or_null (get_item result ''refresh_token'') \<and>
    expiry_after (clock_refresh w) (get_default result ''expires_in'' (JInt 3600)) = Inr expiry \<and>
    client_id s \<noteq> [] \<and> (\<exists>held. refresh_token s = JStr held \<and> held \<noteq> []) \<longrightarrow>
      (\<exists>r. refresh isoformat w fs s = Inr r \<and> ret_val r \<and>
           access_token (self_after r) = JNull \<and>
           token_expiry (self_after r) = Some expiry \<and>
           is_expired t' (self_after r) = Inr True) \<and>
      (is_expired t s = Inr True \<longrightarrow>
         (\<exists>r'. get_token isoformat t w fs s = Inr r' \<and> ret_val r' = JNull)))
   \<and> (post_json (workos_reply v) = Inr (JObj result') \<and>
       map_of result' ''access_token'' = None \<and>
       string_or_null (get_item result' ''refresh_token'') \<and>
       expiry_after (clock_expiry v) (get_default result' ''expires_in'' (JInt 3600)) =
         Inr expiry' \<and>
       client_id z \<noteq> [] \<and> (\<exists>held. refresh_token z = JStr held \<and> held \<noteq> []) \<longrightarrow>
      ret_val (refresh_fixed v var z) \<and>
      access_token (self_after (refresh_fixed v var z)) = JNull \<and>
      token_expiry (self_after (refresh_fixed v var z)) = Some expiry' \<and>
      is_expired t' (self_after (refresh_fixed v var z)) = Inr True \<and>
      (is_expired t z = Inr True \<longrightarrow>
         (\<exists>r'. get_token_fixed t v var z = Inr r' \<and> ret_val r' = JNull)))"
proof -
  have file_part:
    "(\<exists>r. refresh isoformat w fs s = Inr r \<and> ret_val r \<and>
           access_token (self_after r) = JNull \<and>
           token_expiry (self_after r) = Some expiry \<and>
           is_expired t' (self_after r) = Inr True) \<and>
      (is_expired t s = Inr True \<longrightarrow>
         (\<exists>r'. get_token isoformat t w fs s = Inr r' \<and> ret_val r' = JNull))"
    if "post_json (provider_reply w) = Inr (JObj result)"
      and "map_of result ''access_token'' = None"
      and "string_or_null (get_item result ''refresh_token'')"
      and "expiry_after (clock_refresh w) (get_default result ''expires_in'' (JInt 3600)) =
             Inr expiry"
      and cid: "client_id s \<noteq> []" and held: "\<exists>held. refresh_token s = JStr held \<and> held \<noteq> []"
  proof -
    from held have sl: "sliceable (refresh_token s)" and tr: "truthy (refresh_token s)" by auto
    from exchange_without_access_token [OF that(1-4) sl]
    obtain s' rot where ex: "exchange (provider_reply w) (clock_refresh w) s = (True, s', rot)"
      and at: "access_token s' = JNull" and te: "token_expiry s' = Some expiry"
      by blast
    let ?r = "\<lparr>ret_val = True, self_after = s',
                store_after = persist_state isoformat (clock_saved w) (write_result w) s' fs,
                sent = [\<lparr>grant_client_id = client_id s,
                         grant_refresh_token = refresh_token s\<rparr>]\<rparr>"
    from ex cid sl tr have run: "refresh isoformat w fs s = Inr ?r"
      by (simp add: refresh_exchange)
    from at have exp: "is_expired t' s' = Inr True" by (simp add: is_expired_def)
    from run at te exp show ?thesis
      by (auto simp: get_token_def returning_def)
  qed
  have railway_part:
    "ret_val (refresh_fixed v var z) \<and>
      access_token (self_after (refresh_fixed v var z)) = JNull \<and>
      token_expiry (self_after (refresh_fixed v var z)) = Some expiry' \<and>
      is_expired t' (self_after (refresh_fixed v var z)) = Inr True \<and>
      (is_expired t z = Inr True \<longrightarrow>
         (\<exists>r'. get_token_fixed t v var z = Inr r' \<and> ret_val r' = JNull))"
    if "post_json (workos_reply v) = Inr (JObj result')"
      and "map_of result' ''access_token'' = None"
      and "string_or_null (get_item result' ''refresh_token'')"
      and "expiry_after (clock_expiry v) (get_default result' ''expires_in'' (JInt 3600)) =
             Inr expiry'"
      and cid: "client_id z \<noteq> []" and held: "\<exists>held. refresh_token z = JStr held \<and> held \<noteq> []"
  proof -
    from held have sl: "sliceable (refresh_token z)" and tr: "truthy (refresh_token z)" by auto
    from exchange_without_access_token [OF that(1-4) sl]
    obtain z' rot where ex: "exchange (workos_reply v) (clock_expiry v) z = (True, z', rot)"
      and at: "access_token z' = JNull" and te: "token_expiry z' = Some expiry'"
      by blast
    from ex cid tr have run: "ret_val (refresh_fixed v var z)"
      "self_after (refresh_fixed v var z) = z'"
      by (simp_all add: refresh_fixed_exchange)
    from at have exp: "is_expired t' z' = Inr True" by (simp add: is_expired_def)
    from run at te exp show ?thesis
      by (auto simp: get_token_fixed_def returning_def Let_def)
  qed
  from file_part railway_part show ?thesis by blast
qed

theorem missing_access_token_is_not_a_rejection_witness:
  "(\<exists>r. refresh (\<lambda>t. ''2026-11-04T13:00:00'')
          \<lparr>provider_reply = Reply 200 (Json (JObj [(''token_type'', JStr ''Bearer'')])),
           clock_refresh = 63929390400000000, clock_saved = 63929390400000001,
           write_result = Written\<rparr>
          NoFile
          \<lparr>access_token = JStr ''at-1'', refresh_token = JStr ''rt-old'',
           client_id = ''client-1'', token_expiry = Some 63929386800000000\<rparr> = Inr r \<and>
        ret_val r \<and> access_token (self_after r) = JNull \<and>
        token_expiry (self_after r) = Some 63929394000000000 \<and>
        is_expired 63929390400000000 (self_after r) = Inr True)
   \<and> (\<exists>r'. get_token (\<lambda>t. ''2026-11-04T13:00:00'') 63929390400000000
          \<lparr>provider_reply = Reply 200 (Json (JObj [(''token_type'', JStr ''Bearer'')])),
           clock_refresh = 63929390400000000, clock_saved = 63929390400000001,
           write_result = Written\<rparr>
          NoFile
          \<lparr>access_token = JStr ''at-1'', refresh_token = JStr ''rt-old'',
           client_id = ''client-1'', token_expiry = Some 63929386800000000\<rparr> = Inr r' \<and>
        ret_val r' = JNull)
   \<and> ret_val (refresh_fixed
          \<lparr>workos_reply = Reply 200 (Json (JObj [(''token_type'', JStr ''Bearer'')])),
           clock_expiry = 63929390400000000, railway_reply = NoReply\<rparr>
          (JStr ''rt-old'')
          \<lparr>access_token = JStr ''at-1'', refresh_token = JStr ''rt-old'',
           client_id = ''client-1'', token_expiry = Some 63929386800000000,
           railway_token = ''railway-key'', railway_env_id = ''env-1'',
           railway_service_id = ''service-1''\<rparr>)
   \<and> (\<exists>r'. get_token_fixed 63929390400000000
          \<lparr>workos_reply = Reply 200 (Json (JObj [(''token_type'', JStr ''Bearer'')])),
           clock_expiry = 63929390400000000, railway_reply = NoReply\<rparr>
          (JStr ''rt-old'')
          \<lparr>access_token = JStr ''at-1'', refresh_token = JStr ''rt-old'',
           client_id = ''client-1'', token_expiry = Some 63929386800000000,
           railway_token = ''railway-key'', railway_env_id = ''env-1'',
           railway_service_id = ''service-1''\<rparr> = Inr r' \<and>
        ret_val r' = JNull)"
proof -
  let ?iso = "\<lambda>t::int. ''2026-11-04T13:00:00''"
  let ?now = "63929390400000000 :: int"
  let ?result = "[(''token_type'', JStr ''Bearer'')]"
  let ?w = "\<lparr>provider_reply = Reply 200 (Json (JObj ?result)),
              clock_refresh = 63929390400000000, clock_saved = 63929390400000001,
              write_result = Written\<rparr>"
  let ?s = "\<lparr>access_token = JStr ''at-1'', refresh_token = JStr ''rt-old'',
              client_id = ''client-1'', token_expiry = Some 63929386800000000\<rparr>"
  let ?v = "\<lparr>workos_reply = Reply 200 (Json (JObj ?result)),
              clock_expiry = 63929390400000000, railway_reply = NoReply\<rparr>"
  let ?z = "\<lparr>access_token = JStr ''at-1'', refresh_token = JStr ''rt-old'',
              client_id = ''client-1'', token_expiry = Some 63929386800000000,
              railway_token = ''railway-key'', railway_env_id = ''env-1'',
              railway_service_id = ''service-1''\<rparr>"
  have file_hyps:
    "post_json (provider_reply ?w) = Inr (JObj ?result) \<and>
     map_of ?result ''access_token'' = None \<and>
     string_or_null (get_item ?result ''refresh_token'') \<and>
     expiry_after (clock_refresh ?w) (get_default ?result ''expires_in'' (JInt 3600)) =
       Inr 63929394000000000 \<and>
     client_id ?s \<noteq> [] \<and> (\<exists>held. refresh_token ?s = JStr held \<and> held \<noteq> [])"
    by (simp add: get_item_def get_default_def expiry_after_def datetime_add_def checked_def
          max_datetime_def)
  have railway_hyps:
    "post_json (workos_reply ?v) = Inr (JObj ?result) \<and>
     map_of ?result ''access_token'' = None \<and>
     string_or_null (get_item ?result ''refresh_token'') \<and>
     expiry_after (clock_expiry ?v) (get_default ?result ''expires_in'' (JInt 3600)) =
       Inr 63929394000000000 \<and>
     client_id ?z \<noteq> [] \<and> (\<exists>held. refresh_token ?z = JStr held \<and> held \<noteq> [])"
    by (simp add: get_item_def get_default_def expiry_after_def datetime_add_def checked_def
          max_datetime_def)
  have due: "is_expired ?now ?s = Inr True \<and> is_expired ?now ?z = Inr True"
    by (simp add: is_expired_def five_minutes_def datetime_sub_def checked_def max_datetime_def)
  note inst = missing_access_token_is_not_a_rejection
    [of ?w ?result 63929394000000000 ?s ?iso NoFile ?now ?now
        ?v ?result 63929394000000000 ?z "JStr ''rt-old''"]
  from inst file_hyps due have file_concl:
    "(\<exists>r. refresh ?iso ?w NoFile ?s = Inr r \<and> ret_val r \<and>
          access_token (self_after r) = JNull \<and>
          token_expiry (self_after r) = Some 63929394000000000 \<and>
          is_expired ?now (self_after r) = Inr True) \<and>
     (\<exists>r'. get_token ?iso ?now ?w NoFile ?s = Inr r' \<and> ret_val r' = JNull)"
    by blast
  from inst railway_hyps due have railway_concl:
    "ret_val (refresh_fixed ?v (JStr ''rt-old'') ?z) \<and>
     (\<exists>r'. get_token_fixed ?now ?v (JStr ''rt-old'') ?z = Inr r' \<and> ret_val r' = JNull)"
    by blast
  from file_concl railway_concl show ?thesis by simp
qed

section \<open>A failed save does not fail the refresh\<close>

text \<open>
  C5. Take a refresh in which the exchange with the provider succeeds: credentials are
  held, the reply yields a result, the rotation step and the computation of the expiry
  raise nothing. If the save then fails, \<^verbatim>\<open>refresh\<close> still returns success, and the
  object holds the access token of the result, the new expiry and the refresh token
  the rotation step decided on; nothing of the failure reaches the caller. File
  strategy: the write fails in any of its three ways, and the file is left as it was
  (damaged, if the dump broke off). Railway strategy: a credential is missing or the
  Railway API answers with an error, and the variable is left as it was.
\<close>

theorem persistence_failure_is_not_surfaced:
  "(post_json (provider_reply w) = Inr (JObj result) \<and>
    rotation (get_item result ''refresh_token'') s = Inr rot \<and>
    expiry_after (clock_refresh w) (get_default result ''expires_in'' (JInt 3600)) = Inr expiry \<and>
    \<not> absent (refresh_token s) \<and> client_id s \<noteq> [] \<and> sliceable (refresh_token s) \<and>
    write_result w \<noteq> Written \<longrightarrow>
      refresh isoformat w fs s =
        Inr \<lparr>ret_val = True,
             self_after =
               s\<lparr>access_token := get_item result ''access_token'',
                 refresh_token :=
                   (case rot of None \<Rightarrow> refresh_token s | Some new_refresh \<Rightarrow> new_refresh),
                 token_expiry := Some expiry\<rparr>,
             store_after = (if write_result w = DumpFails then BadFile else fs),
             sent = [\<lparr>grant_client_id = client_id s,
                      grant_refresh_token = refresh_token s\<rparr>]\<rparr>)
   \<and> (post_json (workos_reply v) = Inr (JObj result') \<and>
       rotation (get_item result' ''refresh_token'') z = Inr rot' \<and>
       expiry_after (clock_expiry v) (get_default result' ''expires_in'' (JInt 3600)) =
         Inr expiry' \<and>
       \<not> absent (refresh_token z) \<and> client_id z \<noteq> [] \<and>
       upsert_fails (railway_reply v) z \<longrightarrow>
      refresh_fixed v var z =
        \<lparr>ret_val = True,
         self_after =
           z\<lparr>access_token := get_item result' ''access_token'',
             refresh_token :=
               (case rot' of None \<Rightarrow> refresh_token z | Some new_refresh \<Rightarrow> new_refresh),
             token_expiry := Some expiry'\<rparr>,
         store_after = var,
         sent = [\<lparr>grant_client_id = client_id z,
                  grant_refresh_token = refresh_token z\<rparr>]\<rparr>)"
proof -
  have file_part:
    "refresh isoformat w fs s =
        Inr \<lparr>ret_val = True,
             self_after =
               s\<lparr>access_token := get_item result ''access_token'',
                 refresh_token :=
                   (case rot of None \<Rightarrow> refresh_token s | Some new_refresh \<Rightarrow> new_refresh),
                 token_expiry := Some expiry\<rparr>,
             store_after = (if write_result w = DumpFails then BadFile else fs),
             sent = [\<lparr>grant_client_id = client_id s,
                      grant_refresh_token = refresh_token s\<rparr>]\<rparr>"
    if res: "post_json (provider_reply w) = Inr (JObj result)"
      and rot: "rotation (get_item result ''refresh_token'') s = Inr rot"
      and life: "expiry_after (clock_refresh w) (get_default result ''expires_in'' (JInt 3600)) =
                   Inr expiry"
      and creds: "\<not> absent (refresh_token s)" "client_id s \<noteq> []" "sliceable (refresh_token s)"
      and fails: "write_result w \<noteq> Written"
    using exchange_result [OF res rot life] creds fails
    by (cases "write_result w") (simp_all add: refresh_exchange absent_def persist_state_def)
  have railway_part:
    "refresh_fixed v var z =
        \<lparr>ret_val = True,
         self_after =
           z\<lparr>access_token := get_item result' ''access_token'',
             refresh_token :=
               (case rot' of None \<Rightarrow> refresh_token z | Some new_refresh \<Rightarrow> new_refresh),
             token_expiry := Some expiry'\<rparr>,
         store_after = var,
         sent = [\<lparr>grant_client_id = client_id z,
                  grant_refresh_token = refresh_token z\<rparr>]\<rparr>"
    if res: "post_json (workos_reply v) = Inr (JObj result')"
      and rot: "rotation (get_item result' ''refresh_token'') z = Inr rot'"
      and life: "expiry_after (clock_expiry v) (get_default result' ''expires_in'' (JInt 3600)) =
                   Inr expiry'"
      and creds: "\<not> absent (refresh_token z)" "client_id z \<noteq> []"
      and fails: "upsert_fails (railway_reply v) z"
  proof -
    have "persist_refresh_token new (railway_reply v)
            (z\<lparr>access_token := a, refresh_token := b, token_expiry := c\<rparr>) var = (False, var)"
      for new a b c
      using fails by (intro persist_refresh_token_fails) (simp add: upsert_fails_def)
    with exchange_result [OF res rot life] creds show ?thesis
      by (simp add: refresh_fixed_exchange absent_def split: option.split)
  qed
  from file_part railway_part show ?thesis by blast
qed

theorem persistence_failure_is_not_surfaced_witness:
  "refresh (\<lambda>t. ''2026-11-04T13:00:00'')
     \<lparr>provider_reply = Reply 200 (Json (JObj [(''access_token'', JStr ''at-1''),
                                               (''refresh_token'', JStr ''rt-new''),
                                               (''expires_in'', JInt 3600)])),
      clock_refresh = 63929390400000000, clock_saved = 63929390400000001,
      write_result = DumpFails\<rparr>
     NoFile
     \<lparr>access_token = JNull, refresh_token = JStr ''rt-old'', client_id = ''client-1'',
      token_expiry = None\<rparr>
   = Inr \<lparr>ret_val = True,
          self_after = \<lparr>access_token = JStr ''at-1'', refresh_token = JStr ''rt-new'',
                         client_id = ''client-1'', token_expiry = Some 63929394000000000\<rparr>,
          store_after = BadFile,
          sent = [\<lparr>grant_client_id = ''client-1'', grant_refresh_token = JStr ''rt-old''\<rparr>]\<rparr>
   \<and> refresh_fixed
       \<lparr>workos_reply = Reply 200 (Json (JObj [(''access_token'', JStr ''at-1''),
                                               (''refresh_token'', JStr ''rt-new''),
                                               (''expires_in'', JInt 3600)])),
        clock_expiry = 63929390400000000, railway_reply = Reply 500 NotJson\<rparr>
       (JStr ''rt-old'')
       \<lparr>access_token = JNull, refresh_token = JStr ''rt-old'', client_id = ''client-1'',
        token_expiry = None, railway_token = ''railway-key'', railway_env_id = ''env-1'',
        railway_service_id = ''service-1''\<rparr>
     = \<lparr>ret_val = True,
        self_after = \<lparr>access_token = JStr ''at-1'', refresh_token = JStr ''rt-new'',
                       client_id = ''client-1'', token_expiry = Some 63929394000000000,
                       railway_token = ''railway-key'', railway_env_id = ''env-1'',
                       railway_service_id = ''service-1''\<rparr>,
        store_after = JStr ''rt-old'',
        sent = [\<lparr>grant_client_id = ''client-1'', grant_refresh_token = JStr ''rt-old''\<rparr>]\<rparr>"
proof -
  let ?iso = "\<lambda>t::int. ''2026-11-04T13:00:00''"
  let ?result = "[(''access_token'', JStr ''at-1''), (''refresh_token'', JStr ''rt-new''),
                  (''expires_in'', JInt 3600)]"
  let ?w = "\<lparr>provider_reply = Reply 200 (Json (JObj ?result)),
              clock_refresh = 63929390400000000, clock_saved = 63929390400000001,
              write_result = DumpFails\<rparr>"
  let ?s = "\<lparr>access_token = JNull, refresh_token = JStr ''rt-old'', client_id = ''client-1'',
              token_expiry = None\<rparr>"
  let ?v = "\<lparr>workos_reply = Reply 200 (Json (JObj ?result)),
              clock_expiry = 63929390400000000, railway_reply = Reply 500 NotJson\<rparr>"
  let ?z = "\<lparr>access_token = JNull, refresh_token = JStr ''rt-old'', client_id = ''client-1'',
              token_expiry = None, railway_token = ''railway-key'', railway_env_id = ''env-1'',
              railway_service_id = ''service-1''\<rparr>"
  have file_hyps:
    "post_json (provider_reply ?w) = Inr (JObj ?result) \<and>
     rotation (get_item ?result ''refresh_token'') ?s = Inr (Some (JStr ''rt-new'')) \<and>
     expiry_after (clock_refresh ?w) (get_default ?result ''expires_in'' (JInt 3600)) =
       Inr 63929394000000000 \<and>
     \<not> absent (refresh_token ?s) \<and> client_id ?s \<noteq> [] \<and> sliceable (refresh_token ?s) \<and>
     write_result ?w \<noteq> Written"
    by (simp add: rotation_def get_item_def get_default_def expiry_after_def datetime_add_def
          checked_def max_datetime_def absent_def)
  have railway_hyps:
    "post_json (workos_reply ?v) = Inr (JObj ?result) \<and>
     rotation (get_item ?result ''refresh_token'') ?z = Inr (Some (JStr ''rt-new'')) \<and>
     expiry_after (clock_expiry ?v) (get_default ?result ''expires_in'' (JInt 3600)) =
       Inr 63929394000000000 \<and>
     \<not> absent (refresh_token ?z) \<and> client_id ?z \<noteq> [] \<and>
     upsert_fails (railway_reply ?v) ?z"
    by (simp add: rotation_def get_item_def get_default_def expiry_after_def datetime_add_def
          checked_def max_datetime_def absent_def upsert_fails_def)
  note inst = persistence_failure_is_not_surfaced
    [of ?w ?result ?s "Some (JStr ''rt-new'')" 63929394000000000 ?iso NoFile
        ?v ?result ?z "Some (JStr ''rt-new'')" 63929394000000000 "JStr ''rt-old''"]
  from inst file_hyps have file_concl:
    "refresh ?iso ?w NoFile ?s =
        Inr \<lparr>ret_val = True,
             self_after =
               ?s\<lparr>access_token := get_item ?result ''access_token'',
                  refresh_token := JStr ''rt-new'',
                  token_expiry := Some 63929394000000000\<rparr>,
             store_after = (if write_result ?w = DumpFails then BadFile else NoFile),
             sent = [\<lparr>grant_client_id = client_id ?s,
                      grant_refresh_token = refresh_token ?s\<rparr>]\<rparr>"
    by simp
  from inst railway_hyps have railway_concl:
    "refresh_fixed ?v (JStr ''rt-old'') ?z =
        \<lparr>ret_val = True,
         self_after =
           ?z\<lparr>access_token := get_item ?result ''access_token'',
              refresh_token := JStr ''rt-new'',
              token_expiry := Some 63929394000000000\<rparr>,
         store_after = JStr ''rt-old'',
         sent = [\<lparr>grant_client_id = client_id ?z,
                  grant_refresh_token = refresh_token ?z\<rparr>]\<rparr>"
    by simp
  from file_concl railway_concl show ?thesis
    by (simp add: get_item_def)
qed

section \<open>Precedence of the persisted refresh token at startup\<close>

text \<open>
  C6. At startup under the file strategy, when the file exists, is readable and its
  record holds a non-empty refresh token, the constructed object's refresh token is the
  persisted value and not the one of the environment. When the file is missing,
  unreadable, out of reach or corrupt (no JSON, or JSON that is no object), the object
  is the one seeded from the environment. Construction is never fatal: \<open>init\<close> is a
  total function into states, with no error result.
\<close>

theorem persisted_refresh_token_takes_precedence:
  "(fs = JsonFile (JObj state) \<and> \<not> absent (get_item state ''refresh_token'') \<longrightarrow>
      refresh_token (init env_refresh env_client fromisoformat t fs) =
        get_item state ''refresh_token'')
   \<and> (fs = NoFile \<or> fs = BadFile \<or> fs = Inaccessible \<or>
       (\<exists>j e. fs = JsonFile j \<and> as_dict j = Inl e) \<longrightarrow>
      init env_refresh env_client fromisoformat t fs =
        \<lparr>access_token = JNull, refresh_token = JStr env_refresh,
         client_id = env_client, token_expiry = None\<rparr>)"
  by (auto simp: init_def load_persisted_state_def absent_def Let_def load_refresh_token)

theorem persisted_refresh_token_takes_precedence_witness:
  "refresh_token
     (init ''rt-baseline'' ''client-1'' (\<lambda>str. BadFormat) 63929390400000000
        (JsonFile (JObj [(''refresh_token'', JStr ''rt-persisted''), (''access_token'', JNull),
                         (''token_expiry'', JNull), (''updated_at'', JStr ''2026-11-04T12:00:00'')])))
     = JStr ''rt-persisted''
   \<and> init ''rt-baseline'' ''client-1'' (\<lambda>str. BadFormat) 63929390400000000 NoFile =
        \<lparr>access_token = JNull, refresh_token = JStr ''rt-baseline'',
         client_id = ''client-1'', token_expiry = None\<rparr>
   \<and> init ''rt-baseline'' ''client-1'' (\<lambda>str. BadFormat) 63929390400000000 BadFile =
        \<lparr>access_token = JNull, refresh_token = JStr ''rt-baseline'',
         client_id = ''client-1'', token_expiry = None\<rparr>
   \<and> init ''rt-baseline'' ''client-1'' (\<lambda>str. BadFormat) 63929390400000000 Inaccessible =
        \<lparr>access_token = JNull, refresh_token = JStr ''rt-baseline'',
         client_id = ''client-1'', token_expiry = None\<rparr>
   \<and> init ''rt-baseline'' ''client-1'' (\<lambda>str. BadFormat) 63929390400000000
        (JsonFile (JArr [JStr ''rt-persisted''])) =
        \<lparr>access_token = JNull, refresh_token = JStr ''rt-baseline'',
         client_id = ''client-1'', token_expiry = None\<rparr>"
  using persisted_refresh_token_takes_precedence
    [of "JsonFile (JObj [(''refresh_token'', JStr ''rt-persisted''), (''access_token'', JNull),
                         (''token_expiry'', JNull), (''updated_at'', JStr ''2026-11-04T12:00:00'')])"
        "[(''refresh_token'', JStr ''rt-persisted''), (''access_token'', JNull),
                         (''token_expiry'', JNull), (''updated_at'', JStr ''2026-11-04T12:00:00'')]"
        "''rt-baseline''" "''client-1''" "\<lambda>str. BadFormat" 63929390400000000]
    persisted_refresh_token_takes_precedence
    [of NoFile "[]" "''rt-baseline''" "''client-1''" "\<lambda>str. BadFormat" 63929390400000000]
    persisted_refresh_token_takes_precedence
    [of BadFile "[]" "''rt-baseline''" "''client-1''" "\<lambda>str. BadFormat" 63929390400000000]
    persisted_refresh_token_takes_precedence
    [of Inaccessible "[]" "''rt-baseline''" "''client-1''" "\<lambda>str. BadFormat"
        63929390400000000]
    persisted_refresh_token_takes_precedence
    [of "JsonFile (JArr [JStr ''rt-persisted''])" "[]" "''rt-baseline''" "''client-1''"
        "\<lambda>str. BadFormat" 63929390400000000]
  by (simp add: absent_def get_item_def)

section \<open>Serving a token that is still valid\<close>

text \<open>
  C7 as stated fails in its second half: \<^verbatim>\<open>is_expired\<close> subtracts the buffer from the
  expiry, and for an expiry less than five minutes after \<^verbatim>\<open>datetime.min\<close> that
  subtraction raises \<^verbatim>\<open>OverflowError\<close> instead of giving \<^verbatim>\<open>True\<close>. Such an expiry is
  what a successful refresh leaves when the reply carries the lifetime \<open>-63929390340\<close>
  at noon of 2026-11-04.
\<close>

theorem is_expired_raises_counterexample:
  "refresh (\<lambda>t. ''0001-01-01T00:01:00'')
     \<lparr>provider_reply = Reply 200 (Json (JObj [(''access_token'', JStr ''at-1''),
                                               (''expires_in'', JInt (- 63929390340))])),
      clock_refresh = 63929390400000000, clock_saved = 63929390400000001,
      write_result = OpenFails\<rparr>
     NoFile
     \<lparr>access_token = JNull, refresh_token = JStr ''rt-old'', client_id = ''client-1'',
      token_expiry = None\<rparr>
   = Inr \<lparr>ret_val = True,
          self_after = \<lparr>access_token = JStr ''at-1'', refresh_token = JStr ''rt-old'',
                         client_id = ''client-1'', token_expiry = Some 60000000\<rparr>,
          store_after = NoFile,
          sent = [\<lparr>grant_client_id = ''client-1'', grant_refresh_token = JStr ''rt-old''\<rparr>]\<rparr>
   \<and> is_expired 63929390400000000
       \<lparr>access_token = JStr ''at-1'', refresh_token = JStr ''rt-old'',
        client_id = ''client-1'', token_expiry = Some 60000000\<rparr>
     = Inl OverflowError"
  by (simp add: refresh_def rotation_def get_item_def get_default_def expiry_after_def
        datetime_add_def datetime_sub_def checked_def max_datetime_def five_minutes_def
        persist_state_def is_expired_def Let_def)

text \<open>
  C7, amended. For every state whose access token is set and whose expiry is more than
  five minutes after the current time (clock reading and expiry being datetimes),
  \<^verbatim>\<open>get_token\<close> returns that access token, sends nothing to the provider and changes no
  field of the object (nor the file). \<^verbatim>\<open>is_expired\<close> is true when the access token or
  the expiry is absent; otherwise, for an expiry at least five minutes after
  \<^verbatim>\<open>datetime.min\<close>, it is true exactly when the current time is at or past the expiry
  minus the five minute buffer; for an earlier expiry it raises \<^verbatim>\<open>OverflowError\<close>.
\<close>

theorem get_token_serves_valid_token:
  "(\<not> absent (access_token s) \<and> token_expiry s = Some e \<and> t + five_minutes < e \<and>
    0 \<le> t \<and> e \<le> max_datetime \<longrightarrow>
      get_token isoformat t w fs s =
        Inr \<lparr>ret_val = access_token s, self_after = s, store_after = fs, sent = []\<rparr>)
   \<and> (absent (access_token s) \<or> token_expiry s = None \<longrightarrow> is_expired t s = Inr True)
   \<and> (\<not> absent (access_token s) \<and> token_expiry s = Some e \<and>
       five_minutes \<le> e \<and> e \<le> max_datetime \<longrightarrow>
        is_expired t s = Inr (e - five_minutes \<le> t))
   \<and> (\<not> absent (access_token s) \<and> token_expiry s = Some e \<and> e < five_minutes \<longrightarrow>
        is_expired t s = Inl OverflowError)"
  by (auto simp: get_token_def is_expired_def absent_def datetime_sub_def checked_def
        five_minutes_def max_datetime_def)

theorem get_token_serves_valid_token_witness:
  "get_token (\<lambda>t. ''2026-11-04T13:00:00'') 63929390400000000
      \<lparr>provider_reply = NoReply, clock_refresh = 63929390400000000,
       clock_saved = 63929390400000001, write_result = Written\<rparr>
      NoFile
      \<lparr>access_token = JStr ''at-1'', refresh_token = JStr ''rt-old'', client_id = ''client-1'',
        token_expiry = Some 63929394000000000\<rparr>
    = Inr \<lparr>ret_val = JStr ''at-1'',
           self_after = \<lparr>access_token = JStr ''at-1'', refresh_token = JStr ''rt-old'',
                          client_id = ''client-1'', token_expiry = Some 63929394000000000\<rparr>,
           store_after = NoFile, sent = []\<rparr>
   \<and> is_expired 63929390400000000
        \<lparr>access_token = JNull, refresh_token = JStr ''rt-old'', client_id = ''client-1'',
          token_expiry = None\<rparr> = Inr True
   \<and> is_expired 63929393700000000
        \<lparr>access_token = JStr ''at-1'', refresh_token = JStr ''rt-old'', client_id = ''client-1'',
          token_expiry = Some 63929394000000000\<rparr> = Inr True
   \<and> is_expired 63929390400000000
        \<lparr>access_token = JStr ''at-1'', refresh_token = JStr ''rt-old'', client_id = ''client-1'',
          token_expiry = Some 240000000\<rparr> = Inl OverflowError"
proof -
  let ?iso = "\<lambda>t::int. ''2026-11-04T13:00:00''"
  let ?noon = "63929390400000000 :: int"
  let ?w = "\<lparr>provider_reply = NoReply, clock_refresh = 63929390400000000,
              clock_saved = 63929390400000001, write_result = Written\<rparr>"
  let ?s = "\<lparr>access_token = JStr ''at-1'', refresh_token = JStr ''rt-old'',
              client_id = ''client-1'', token_expiry = Some 63929394000000000\<rparr>"
  let ?empty = "\<lparr>access_token = JNull, refresh_token = JStr ''rt-old'',
                  client_id = ''client-1'', token_expiry = None\<rparr>"
  let ?early = "\<lparr>access_token = JStr ''at-1'', refresh_token = JStr ''rt-old'',
                  client_id = ''client-1'', token_expiry = Some 240000000\<rparr>"
  have valid: "\<not> absent (access_token ?s) \<and> token_expiry ?s = Some 63929394000000000 \<and>
               ?noon + five_minutes < 63929394000000000 \<and> 0 \<le> ?noon \<and>
               (63929394000000000::int) \<le> max_datetime"
    by (simp add: absent_def five_minutes_def max_datetime_def)
  have none: "absent (access_token ?empty) \<or> token_expiry ?empty = None"
    by simp
  have reach: "\<not> absent (access_token ?s) \<and> token_expiry ?s = Some 63929394000000000 \<and>
               five_minutes \<le> 63929394000000000 \<and> (63929394000000000::int) \<le> max_datetime"
    by (simp add: absent_def five_minutes_def max_datetime_def)
  have early: "\<not> absent (access_token ?early) \<and> token_expiry ?early = Some 240000000 \<and>
               (240000000::int) < five_minutes"
    by (simp add: absent_def five_minutes_def)
  from get_token_serves_valid_token [of ?s 63929394000000000 ?noon ?iso ?w NoFile] valid
  have served: "get_token ?iso ?noon ?w NoFile ?s =
      Inr \<lparr>ret_val = access_token ?s, self_after = ?s, store_after = NoFile, sent = []\<rparr>"
    by blast
  from get_token_serves_valid_token [of ?empty _ ?noon] none
  have c2: "is_expired ?noon ?empty = Inr True"
    by blast
  from get_token_serves_valid_token [of ?s 63929394000000000 63929393700000000] reach
  have c3: "is_expired 63929393700000000 ?s =
            Inr (63929394000000000 - five_minutes \<le> (63929393700000000::int))"
    by blast
  from get_token_serves_valid_token [of ?early 240000000 ?noon] early
  have c4: "is_expired ?noon ?early = Inl OverflowError"
    by blast
  from served c2 c3 c4 show ?thesis by (simp add: five_minutes_def)
qed

section \<open>Access token and expiry together\<close>

text \<open>
  C8 as stated fails: after construction from the environment, a refresh answered
  with status 200 and a JSON object without an access token leaves the access token
  absent and the expiry set.
\<close>

theorem expiry_without_token_counterexample:
  "reachable (\<lambda>w. True) (\<lambda>fs. True)
     \<lparr>access_token = JNull, refresh_token = JStr ''rt-old'', client_id = ''client-1'',
      token_expiry = Some 63929394000000000\<rparr>
   \<and> \<not> paired
     \<lparr>access_token = JNull, refresh_token = JStr ''rt-old'', client_id = ''client-1'',
      token_expiry = Some 63929394000000000\<rparr>"
proof -
  let ?iso = "\<lambda>t::int. ''2026-11-04T13:00:00''"
  let ?P = "\<lambda>w::world. True" and ?Q = "\<lambda>fs::file_state. True"
  let ?w = "\<lparr>provider_reply = Reply 200 (Json (JObj [(''token_type'', JStr ''Bearer''),
                                                      (''expires_in'', JInt 3600)])),
              clock_refresh = 63929390400000000, clock_saved = 63929390400000001, write_result = Written\<rparr>"
  let ?s0 = "init ''rt-old'' ''client-1'' (\<lambda>str. BadFormat) 63929390400000000 NoFile"
  let ?s1 = "\<lparr>access_token = JNull, refresh_token = JStr ''rt-old'', client_id = ''client-1'',
               token_expiry = Some 63929394000000000\<rparr>"
  have start: "reachable ?P ?Q ?s0"
    by (rule reachable.constructed) simp
  have run: "refresh ?iso ?w NoFile ?s0 =
      Inr \<lparr>ret_val = True, self_after = ?s1,
           store_after = persist_state ?iso 63929390400000001 Written ?s1 NoFile,
           sent = [\<lparr>grant_client_id = ''client-1'', grant_refresh_token = JStr ''rt-old''\<rparr>]\<rparr>"
    by (simp add: init_def load_persisted_state_def refresh_def rotation_def get_item_def
          get_default_def expiry_after_def datetime_add_def checked_def
          max_datetime_def Let_def)
  from reachable.refreshed [OF start _ run] have "reachable ?P ?Q ?s1"
    by simp
  moreover have "\<not> paired ?s1"
    by (simp add: paired_def absent_def)
  ultimately show ?thesis by simp
qed

text \<open>
  C8, amended. In every state reachable by construction (with its load), refresh and
  reset, provided every provider reply that yields a JSON object carries a non-empty
  string as access token, a string or nothing as refresh token and an integer or
  nothing as lifetime, that lifetime added to the clock being a datetime, and every
  file record read at construction carries a non-empty string as access token whenever
  it carries an expiry, the access token is absent if and only if the expiry is absent.
\<close>

theorem token_and_expiry_paired:
  "reachable well_formed_world well_formed_file s \<Longrightarrow> paired s"
proof (induction rule: reachable.induct)
  case (constructed fs env_refresh env_client fromisoformat t)
  then show ?case by (rule init_paired)
next
  case (refreshed s w isoformat fs r)
  then show ?case by (blast intro: refresh_paired)
next
  case (reset w env_refresh env_client fromisoformat isoformat unlink_ok t fs r)
  then show ?case by (blast intro: reset_token_paired)
qed

theorem token_and_expiry_paired_witness:
  "reachable well_formed_world well_formed_file
     \<lparr>access_token = JStr ''at-1'', refresh_token = JStr ''rt-new'', client_id = ''client-1'',
      token_expiry = Some 63929394000000000\<rparr>
   \<and> paired
     \<lparr>access_token = JStr ''at-1'', refresh_token = JStr ''rt-new'', client_id = ''client-1'',
      token_expiry = Some 63929394000000000\<rparr>"
proof -
  let ?iso = "\<lambda>t::int. ''2026-11-04T13:00:00''"
  let ?w = "\<lparr>provider_reply = Reply 200 (Json (JObj [(''access_token'', JStr ''at-1''),
                                                      (''refresh_token'', JStr ''rt-new''),
                                                      (''expires_in'', JInt 3600)])),
              clock_refresh = 63929390400000000, clock_saved = 63929390400000001, write_result = Written\<rparr>"
  let ?s0 = "init ''rt-old'' ''client-1'' (\<lambda>str. BadFormat) 63929390400000000 NoFile"
  let ?s1 = "\<lparr>access_token = JStr ''at-1'', refresh_token = JStr ''rt-new'',
               client_id = ''client-1'', token_expiry = Some 63929394000000000\<rparr>"
  have start: "reachable well_formed_world well_formed_file ?s0"
    by (rule reachable.constructed) (simp add: well_formed_file_def)
  have shaped: "well_formed_world ?w"
    by (simp add: well_formed_world_def well_formed_result_def lifetime_fits_def get_item_def
          get_default_def expiry_after_def datetime_add_def checked_def max_datetime_def)
  have run: "refresh ?iso ?w NoFile ?s0 =
      Inr \<lparr>ret_val = True, self_after = ?s1,
           store_after = persist_state ?iso 63929390400000001 Written ?s1 NoFile,
           sent = [\<lparr>grant_client_id = ''client-1'', grant_refresh_token = JStr ''rt-old''\<rparr>]\<rparr>"
    by (simp add: init_def load_persisted_state_def refresh_def rotation_def get_item_def
          get_default_def expiry_after_def datetime_add_def checked_def
          max_datetime_def Let_def)
  from reachable.refreshed [OF start shaped run]
  have reached: "reachable well_formed_world well_formed_file ?s1"
    by simp
  from token_and_expiry_paired [OF reached] reached show ?thesis
    by simp
qed

section \<open>The health handler\<close>

text \<open>
  C9 as stated fails: \<^verbatim>\<open>/health\<close> calls \<^verbatim>\<open>get_token\<close>, so on an expired state it
  refreshes: a grant is sent to the provider and the object changes. What the file
  strategy reports of the refresh token is its first ten characters and three dots,
  which for a token of at most ten characters (here \<^verbatim>\<open>rt-new\<close>) is the whole token;
  the handler of \<^verbatim>\<open>api_fixed.py\<close> reports no prefix at all.
\<close>

theorem health_refreshes_counterexample:
  "health (\<lambda>t. ''2026-11-04T13:00:00'') 63929390400000000
     \<lparr>provider_reply = Reply 200 (Json (JObj [(''access_token'', JStr ''at-1''),
                                               (''refresh_token'', JStr ''rt-new''),
                                               (''expires_in'', JInt 3600)])),
      clock_refresh = 63929390400000000, clock_saved = 63929390400000001,
      write_result = OpenFails\<rparr>
     NoFile
     \<lparr>access_token = JNull, refresh_token = JStr ''rt-old'', client_id = ''client-1'',
      token_expiry = None\<rparr>
   = \<lparr>ret_val = Inr (JObj [(''status'', JStr ''healthy''), (''token_valid'', JBool True),
                            (''token_expiry'', JStr ''2026-11-04T13:00:00''),
                            (''persistence_enabled'', JBool False),
                            (''refresh_token_prefix'', JStr ''rt-new...'')]),
      self_after = \<lparr>access_token = JStr ''at-1'', refresh_token = JStr ''rt-new'',
                     client_id = ''client-1'', token_expiry = Some 63929394000000000\<rparr>,
      store_after = NoFile,
      sent = [\<lparr>grant_client_id = ''client-1'', grant_refresh_token = JStr ''rt-old''\<rparr>]\<rparr>
   \<and> health_fixed (\<lambda>t. ''2026-11-04T13:00:00'') 63929390400000000
       \<lparr>workos_reply = Reply 200 (Json (JObj [(''access_token'', JStr ''at-1''),
                                               (''refresh_token'', JStr ''rt-new''),
                                               (''expires_in'', JInt 3600)])),
        clock_expiry = 63929390400000000, railway_reply = NoReply\<rparr>
       (JStr ''rt-old'')
       \<lparr>access_token = JNull, refresh_token = JStr ''rt-old'', client_id = ''client-1'',
        token_expiry = None, railway_token = [], railway_env_id = [],
        railway_service_id = []\<rparr>
     = \<lparr>ret_val = Inr (JObj [(''status'', JStr ''healthy''), (''token_valid'', JBool True),
                              (''token_expiry'', JStr ''2026-11-04T13:00:00''),
                              (''railway_persistence'', JBool False)]),
        self_after = \<lparr>access_token = JStr ''at-1'', refresh_token = JStr ''rt-new'',
                       client_id = ''client-1'', token_expiry = Some 63929394000000000,
                       railway_token = [], railway_env_id = [], railway_service_id = []\<rparr>,
        store_after = JStr ''rt-old'',
        sent = [\<lparr>grant_client_id = ''client-1'', grant_refresh_token = JStr ''rt-old''\<rparr>]\<rparr>"
  by (simp add: health_def health_fixed_def get_token_def get_token_fixed_def is_expired_def
        refresh_def refresh_fixed_def rotation_def get_item_def get_default_def
        expiry_after_def datetime_add_def checked_def max_datetime_def
        persist_state_def persist_refresh_token_def token_prefix_def expiry_field_def
        returning_def Let_def)

text \<open>
  C9, amended. Whenever \<^verbatim>\<open>is_expired\<close> does not return true, the \<^verbatim>\<open>/health\<close> handler
  leaves every field of the object (and the store) unchanged and sends nothing to the
  provider, whether it answers or raises. While the token is valid it answers with the
  token marked valid, the expiry timestamp and, under the file strategy only, the first
  ten characters of the refresh token followed by \<^verbatim>\<open>"..."\<close> (nothing for an empty
  token); it raises instead when the existence of the state file cannot be examined or
  the refresh token is no string. The Railway strategy reports whether a Railway token
  is configured instead of a prefix. On an expired state the handler leaves the object,
  the store and the grants sent exactly as the \<^verbatim>\<open>refresh\<close> it triggers leaves them, and
  unchanged when that refresh raises.
\<close>

theorem health_is_read_only_while_valid:
  "(is_expired t s \<noteq> Inr True \<longrightarrow>
      self_after (health isoformat t w fs s) = s \<and>
      store_after (health isoformat t w fs s) = fs \<and>
      sent (health isoformat t w fs s) = [])
   \<and> (is_expired t s = Inr False \<longrightarrow>
        ret_val (health isoformat t w fs s) =
          (if fs = Inaccessible then Inl OSError
           else
             (case token_prefix (refresh_token s) of
                Inl e \<Rightarrow> Inl e
              | Inr prefix \<Rightarrow>
                  Inr (JObj [(''status'', JStr ''healthy''), (''token_valid'', JBool True),
                             (''token_expiry'', expiry_field isoformat s),
                             (''persistence_enabled'', JBool (fs \<noteq> NoFile)),
                             (''refresh_token_prefix'', prefix)]))))
   \<and> token_prefix (JStr held) =
        Inr (if held = [] then JNull else JStr (take 10 held @ ''...''))
   \<and> (is_expired t s = Inr True \<and> refresh isoformat w fs s = Inr r \<longrightarrow>
        self_after (health isoformat t w fs s) = self_after r \<and>
        store_after (health isoformat t w fs s) = store_after r \<and>
        sent (health isoformat t w fs s) = sent r)
   \<and> (is_expired t s = Inr True \<and> refresh isoformat w fs s = Inl e \<longrightarrow>
        health isoformat t w fs s =
          \<lparr>ret_val = Inl e, self_after = s, store_after = fs, sent = []\<rparr>)
   \<and> (is_expired t z \<noteq> Inr True \<longrightarrow>
        self_after (health_fixed isoformat t v var z) = z \<and>
        store_after (health_fixed isoformat t v var z) = var \<and>
        sent (health_fixed isoformat t v var z) = [])
   \<and> (is_expired t z = Inr False \<longrightarrow>
        ret_val (health_fixed isoformat t v var z) =
          Inr (JObj [(''status'', JStr ''healthy''), (''token_valid'', JBool True),
                     (''token_expiry'', expiry_field isoformat z),
                     (''railway_persistence'', JBool (railway_token z \<noteq> []))]))
   \<and> (is_expired t z = Inr True \<longrightarrow>
        self_after (health_fixed isoformat t v var z) = self_after (refresh_fixed v var z) \<and>
        store_after (health_fixed isoformat t v var z) = store_after (refresh_fixed v var z) \<and>
        sent (health_fixed isoformat t v var z) = sent (refresh_fixed v var z))"
proof -
  have valid_token: "truthy (access_token x) \<and> access_token x \<noteq> JNull"
    if "is_expired t x = Inr False" for x :: "'a token_state_scheme"
    using that by (auto simp: is_expired_def split: if_splits)
  have cases: "(\<exists>e. is_expired t x = Inl e) \<or> is_expired t x = Inr False"
    if "is_expired t x \<noteq> Inr True" for x :: "'a token_state_scheme"
    using that by (cases "is_expired t x") auto
  have file_frame:
    "is_expired t s \<noteq> Inr True \<longrightarrow>
      self_after (health isoformat t w fs s) = s \<and>
      store_after (health isoformat t w fs s) = fs \<and>
      sent (health isoformat t w fs s) = []"
    using cases [of s]
    by (auto simp: health_def get_token_def returning_def Let_def split: sum.splits)
  have file_report:
    "is_expired t s = Inr False \<longrightarrow>
        ret_val (health isoformat t w fs s) =
          (if fs = Inaccessible then Inl OSError
           else
             (case token_prefix (refresh_token s) of
                Inl e \<Rightarrow> Inl e
              | Inr prefix \<Rightarrow>
                  Inr (JObj [(''status'', JStr ''healthy''), (''token_valid'', JBool True),
                             (''token_expiry'', expiry_field isoformat s),
                             (''persistence_enabled'', JBool (fs \<noteq> NoFile)),
                             (''refresh_token_prefix'', prefix)])))"
    using valid_token [of s]
    by (auto simp: health_def get_token_def returning_def Let_def split: sum.splits)
  have prefix: "token_prefix (JStr held) =
        Inr (if held = [] then JNull else JStr (take 10 held @ ''...''))"
    by (simp add: token_prefix_def)
  have file_expired:
    "is_expired t s = Inr True \<and> refresh isoformat w fs s = Inr r \<longrightarrow>
        self_after (health isoformat t w fs s) = self_after r \<and>
        store_after (health isoformat t w fs s) = store_after r \<and>
        sent (health isoformat t w fs s) = sent r"
    by (auto simp: health_def get_token_def returning_def Let_def split: sum.splits)
  have file_raises:
    "is_expired t s = Inr True \<and> refresh isoformat w fs s = Inl e \<longrightarrow>
        health isoformat t w fs s =
          \<lparr>ret_val = Inl e, self_after = s, store_after = fs, sent = []\<rparr>"
    by (auto simp: health_def get_token_def)
  have railway_frame:
    "is_expired t z \<noteq> Inr True \<longrightarrow>
        self_after (health_fixed isoformat t v var z) = z \<and>
        store_after (health_fixed isoformat t v var z) = var \<and>
        sent (health_fixed isoformat t v var z) = []"
    using cases [of z]
    by (auto simp: health_fixed_def get_token_fixed_def returning_def Let_def)
  have railway_report:
    "is_expired t z = Inr False \<longrightarrow>
        ret_val (health_fixed isoformat t v var z) =
          Inr (JObj [(''status'', JStr ''healthy''), (''token_valid'', JBool True),
                     (''token_expiry'', expiry_field isoformat z),
                     (''railway_persistence'', JBool (railway_token z \<noteq> []))])"
    using valid_token [of z]
    by (auto simp: health_fixed_def get_token_fixed_def returning_def Let_def)
  have railway_expired:
    "is_expired t z = Inr True \<longrightarrow>
        self_after (health_fixed isoformat t v var z) = self_after (refresh_fixed v var z) \<and>
        store_after (health_fixed isoformat t v var z) = store_after (refresh_fixed v var z) \<and>
        sent (health_fixed isoformat t v var z) = sent (refresh_fixed v var z)"
    by (simp add: health_fixed_def get_token_fixed_def returning_def Let_def)
  from file_frame file_report prefix file_expired file_raises
    railway_frame railway_report railway_expired
  show ?thesis by blast
qed

theorem health_is_read_only_while_valid_witness:
  "health (\<lambda>t. ''2026-11-04T13:00:00'') 63929390400000000
     \<lparr>provider_reply = NoReply, clock_refresh = 63929390400000000,
      clock_saved = 63929390400000001, write_result = Written\<rparr>
     BadFile
     \<lparr>access_token = JStr ''at-1'', refresh_token = JStr ''rt-old-0123456789'',
      client_id = ''client-1'', token_expiry = Some 63929394000000000\<rparr>
   = \<lparr>ret_val = Inr (JObj [(''status'', JStr ''healthy''), (''token_valid'', JBool True),
                            (''token_expiry'', JStr ''2026-11-04T13:00:00''),
                            (''persistence_enabled'', JBool True),
                            (''refresh_token_prefix'', JStr ''rt-old-012...'')]),
      self_after = \<lparr>access_token = JStr ''at-1'', refresh_token = JStr ''rt-old-0123456789'',
                     client_id = ''client-1'', token_expiry = Some 63929394000000000\<rparr>,
      store_after = BadFile, sent = []\<rparr>
   \<and> sent (health (\<lambda>t. ''2026-11-04T13:00:00'') 63929390400000000
          \<lparr>provider_reply = NoReply, clock_refresh = 63929390400000000,
           clock_saved = 63929390400000001, write_result = Written\<rparr>
          BadFile
          \<lparr>access_token = JNull, refresh_token = JStr ''rt-old'', client_id = ''client-1'',
           token_expiry = None\<rparr>)
     = [\<lparr>grant_client_id = ''client-1'', grant_refresh_token = JStr ''rt-old''\<rparr>]
   \<and> health (\<lambda>t. ''2026-11-04T13:00:00'') 63929390400000000
       \<lparr>provider_reply = NoReply, clock_refresh = 63929390400000000,
        clock_saved = 63929390400000001, write_result = Written\<rparr>
       BadFile
       \<lparr>access_token = JNull, refresh_token = JInt 5, client_id = ''client-1'',
        token_expiry = None\<rparr>
     = \<lparr>ret_val = Inl TypeError,
        self_after = \<lparr>access_token = JNull, refresh_token = JInt 5, client_id = ''client-1'',
                       token_expiry = None\<rparr>,
        store_after = BadFile, sent = []\<rparr>
   \<and> health_fixed (\<lambda>t. ''2026-11-04T13:00:00'') 63929390400000000
       \<lparr>workos_reply = NoReply, clock_expiry = 63929390400000000, railway_reply = NoReply\<rparr>
       (JStr ''rt-old'')
       \<lparr>access_token = JStr ''at-1'', refresh_token = JStr ''rt-old'', client_id = ''client-1'',
        token_expiry = Some 63929394000000000, railway_token = ''railway-key'',
        railway_env_id = ''env-1'', railway_service_id = ''service-1''\<rparr>
     = \<lparr>ret_val = Inr (JObj [(''status'', JStr ''healthy''), (''token_valid'', JBool True),
                              (''token_expiry'', JStr ''2026-11-04T13:00:00''),
                              (''railway_persistence'', JBool True)]),
        self_after = \<lparr>access_token = JStr ''at-1'', refresh_token = JStr ''rt-old'',
                       client_id = ''client-1'', token_expiry = Some 63929394000000000,
                       railway_token = ''railway-key'', railway_env_id = ''env-1'',
                       railway_service_id = ''service-1''\<rparr>,
        store_after = JStr ''rt-old'', sent = []\<rparr>
   \<and> sent (health_fixed (\<lambda>t. ''2026-11-04T13:00:00'') 63929390400000000
          \<lparr>workos_reply = NoReply, clock_expiry = 63929390400000000,
           railway_reply = NoReply\<rparr>
          (JStr ''rt-old'')
          \<lparr>access_token = JNull, refresh_token = JStr ''rt-old'', client_id = ''client-1'',
           token_expiry = None, railway_token = ''railway-key'',
           railway_env_id = ''env-1'', railway_service_id = ''service-1''\<rparr>)
     = sent (refresh_fixed
          \<lparr>workos_reply = NoReply, clock_expiry = 63929390400000000,
           railway_reply = NoReply\<rparr>
          (JStr ''rt-old'')
          \<lparr>access_token = JNull, refresh_token = JStr ''rt-old'', client_id = ''client-1'',
           token_expiry = None, railway_token = ''railway-key'',
           railway_env_id = ''env-1'', railway_service_id = ''service-1''\<rparr>)
   \<and> ret_val (health (\<lambda>t. ''2026-11-04T13:00:00'') 63929390400000000
          \<lparr>provider_reply = NoReply, clock_refresh = 63929390400000000,
           clock_saved = 63929390400000001, write_result = Written\<rparr>
          Inaccessible
          \<lparr>access_token = JStr ''at-1'', refresh_token = JStr ''rt-old-0123456789'',
           client_id = ''client-1'', token_expiry = Some 63929394000000000\<rparr>)
     = Inl OSError"
proof -
  let ?iso = "\<lambda>t::int. ''2026-11-04T13:00:00''"
  let ?noon = "63929390400000000 :: int"
  let ?w = "\<lparr>provider_reply = NoReply, clock_refresh = 63929390400000000,
              clock_saved = 63929390400000001, write_result = Written\<rparr>"
  let ?v = "\<lparr>workos_reply = NoReply, clock_expiry = 63929390400000000,
              railway_reply = NoReply\<rparr>"
  let ?valid = "\<lparr>access_token = JStr ''at-1'', refresh_token = JStr ''rt-old-0123456789'',
                  client_id = ''client-1'', token_expiry = Some 63929394000000000\<rparr>"
  let ?stale = "\<lparr>access_token = JNull, refresh_token = JStr ''rt-old'',
                  client_id = ''client-1'', token_expiry = None\<rparr>"
  let ?odd = "\<lparr>access_token = JNull, refresh_token = JInt 5,
                client_id = ''client-1'', token_expiry = None\<rparr>"
  let ?zvalid = "\<lparr>access_token = JStr ''at-1'', refresh_token = JStr ''rt-old'',
                   client_id = ''client-1'', token_expiry = Some 63929394000000000,
                   railway_token = ''railway-key'', railway_env_id = ''env-1'',
                   railway_service_id = ''service-1''\<rparr>"
  let ?zstale = "\<lparr>access_token = JNull, refresh_token = JStr ''rt-old'',
                   client_id = ''client-1'', token_expiry = None,
                   railway_token = ''railway-key'', railway_env_id = ''env-1'',
                   railway_service_id = ''service-1''\<rparr>"
  let ?r = "\<lparr>ret_val = False, self_after = ?stale, store_after = BadFile,
              sent = [\<lparr>grant_client_id = ''client-1'', grant_refresh_token = JStr ''rt-old''\<rparr>]\<rparr>"
  have valid: "is_expired ?noon ?valid = Inr False \<and> is_expired ?noon ?zvalid = Inr False"
    by (simp add: is_expired_def five_minutes_def datetime_sub_def checked_def max_datetime_def)
  then have not_due: "is_expired ?noon ?valid \<noteq> Inr True \<and> is_expired ?noon ?zvalid \<noteq> Inr True"
    by simp
  have stale: "is_expired ?noon ?stale = Inr True \<and> is_expired ?noon ?odd = Inr True \<and>
               is_expired ?noon ?zstale = Inr True"
    by (simp add: is_expired_def)
  have rejected: "refresh ?iso ?w BadFile ?stale = Inr ?r"
    by (simp add: refresh_def)
  have raised: "refresh ?iso ?w BadFile ?odd = Inl TypeError"
    by (simp add: refresh_def)
  note on_valid = health_is_read_only_while_valid
    [of ?noon ?valid ?iso ?w BadFile "''rt-old-0123456789''" _ _ ?zvalid ?v "JStr ''rt-old''"]
  note on_stale = health_is_read_only_while_valid
    [of ?noon ?stale ?iso ?w BadFile _ ?r _ ?zstale ?v "JStr ''rt-old''"]
  note on_odd = health_is_read_only_while_valid
    [of ?noon ?odd ?iso ?w BadFile _ _ TypeError]
  from on_valid valid not_due
  have frame: "self_after (health ?iso ?noon ?w BadFile ?valid) = ?valid \<and>
               store_after (health ?iso ?noon ?w BadFile ?valid) = BadFile \<and>
               sent (health ?iso ?noon ?w BadFile ?valid) = []"
    and report: "ret_val (health ?iso ?noon ?w BadFile ?valid) =
          (if BadFile = Inaccessible then Inl OSError
           else
             (case token_prefix (refresh_token ?valid) of
                Inl e \<Rightarrow> Inl e
              | Inr prefix \<Rightarrow>
                  Inr (JObj [(''status'', JStr ''healthy''), (''token_valid'', JBool True),
                             (''token_expiry'', expiry_field ?iso ?valid),
                             (''persistence_enabled'', JBool (BadFile \<noteq> NoFile)),
                             (''refresh_token_prefix'', prefix)])))"
    and prefix: "token_prefix (JStr ''rt-old-0123456789'') =
          Inr (if ''rt-old-0123456789'' = [] then JNull
               else JStr (take 10 ''rt-old-0123456789'' @ ''...''))"
    and zframe: "self_after (health_fixed ?iso ?noon ?v (JStr ''rt-old'') ?zvalid) = ?zvalid \<and>
               store_after (health_fixed ?iso ?noon ?v (JStr ''rt-old'') ?zvalid) = JStr ''rt-old'' \<and>
               sent (health_fixed ?iso ?noon ?v (JStr ''rt-old'') ?zvalid) = []"
    and zreport: "ret_val (health_fixed ?iso ?noon ?v (JStr ''rt-old'') ?zvalid) =
          Inr (JObj [(''status'', JStr ''healthy''), (''token_valid'', JBool True),
                     (''token_expiry'', expiry_field ?iso ?zvalid),
                     (''railway_persistence'', JBool (railway_token ?zvalid \<noteq> []))])"
    by blast+
  from on_stale stale rejected
  have refreshed: "sent (health ?iso ?noon ?w BadFile ?stale) = sent ?r"
    and zrefreshed: "sent (health_fixed ?iso ?noon ?v (JStr ''rt-old'') ?zstale) =
                     sent (refresh_fixed ?v (JStr ''rt-old'') ?zstale)"
    by blast+
  from on_odd stale raised
  have odd: "health ?iso ?noon ?w BadFile ?odd =
          \<lparr>ret_val = Inl TypeError, self_after = ?odd, store_after = BadFile, sent = []\<rparr>"
    by blast
  have c1: "health ?iso ?noon ?w BadFile ?valid =
      \<lparr>ret_val = Inr (JObj [(''status'', JStr ''healthy''), (''token_valid'', JBool True),
                            (''token_expiry'', JStr ''2026-11-04T13:00:00''),
                            (''persistence_enabled'', JBool True),
                            (''refresh_token_prefix'', JStr ''rt-old-012...'')]),
        self_after = ?valid, store_after = BadFile, sent = []\<rparr>"
    using frame report prefix
    by (cases "health ?iso ?noon ?w BadFile ?valid") (simp add: expiry_field_def)
  have c4: "health_fixed ?iso ?noon ?v (JStr ''rt-old'') ?zvalid =
      \<lparr>ret_val = Inr (JObj [(''status'', JStr ''healthy''), (''token_valid'', JBool True),
                              (''token_expiry'', JStr ''2026-11-04T13:00:00''),
                              (''railway_persistence'', JBool True)]),
        self_after = ?zvalid, store_after = JStr ''rt-old'', sent = []\<rparr>"
    using zframe zreport
    by (cases "health_fixed ?iso ?noon ?v (JStr ''rt-old'') ?zvalid") (simp add: expiry_field_def)
  from health_is_read_only_while_valid [of ?noon ?valid ?iso ?w Inaccessible] valid
  have c6: "ret_val (health ?iso ?noon ?w Inaccessible ?valid) = Inl OSError"
    by simp
  from c1 refreshed odd c4 zrefreshed c6 show ?thesis
    by simp
qed

section \<open>Restoring the access token at startup\<close>

text \<open>
  C10. At startup under the file strategy, an access token is restored only when the
  persisted expiry is more than five minutes after the current time, and then together
  with that expiry. Hence an object freshly loaded with a restored access token is not
  expired at load time. A persisted expiry within the buffer or in the past leaves the
  access token and the expiry absent, while the persisted refresh token is still
  adopted.
\<close>

theorem access_token_restored_only_when_valid:
  "(access_token (init env_refresh env_client fromisoformat t fs) \<noteq> JNull \<longrightarrow>
      (\<exists>state str e.
         fs = JsonFile (JObj state) \<and> get_item state ''token_expiry'' = JStr str \<and>
         fromisoformat str = Naive e \<and> t + five_minutes < e \<and>
         access_token (init env_refresh env_client fromisoformat t fs) =
           get_item state ''access_token'' \<and>
         token_expiry (init env_refresh env_client fromisoformat t fs) = Some e))
   \<and> (\<not> absent (access_token (init env_refresh env_client fromisoformat t fs)) \<longrightarrow>
        is_expired t (init env_refresh env_client fromisoformat t fs) = Inr False)
   \<and> (fs = JsonFile (JObj state) \<and> get_item state ''token_expiry'' = JStr str \<and>
       fromisoformat str = Naive e \<and> e \<le> t + five_minutes \<longrightarrow>
        access_token (init env_refresh env_client fromisoformat t fs) = JNull \<and>
        token_expiry (init env_refresh env_client fromisoformat t fs) = None \<and>
        (\<not> absent (get_item state ''refresh_token'') \<longrightarrow>
           refresh_token (init env_refresh env_client fromisoformat t fs) =
             get_item state ''refresh_token''))"
proof -
  let ?s = "init env_refresh env_client fromisoformat t fs"
  have only_if: "access_token ?s \<noteq> JNull \<longrightarrow>
      (\<exists>state str e limit.
         fs = JsonFile (JObj state) \<and> get_item state ''token_expiry'' = JStr str \<and>
         fromisoformat str = Naive e \<and> datetime_sub e five_minutes = Inr limit \<and> t < limit \<and>
         access_token ?s = get_item state ''access_token'' \<and> token_expiry ?s = Some e)"
    by (cases fs)
       (auto simp: init_def load_persisted_state_def restore_access_def Let_def as_dict_Inr
             split: sum.splits json.splits parsed_time.splits if_splits)
  have limit: "limit = e - five_minutes" if "datetime_sub e five_minutes = Inr limit"
    for e limit
    using that by (auto simp: datetime_sub_def checked_def split: if_splits)
  from only_if limit have restored: "access_token ?s \<noteq> JNull \<longrightarrow>
      (\<exists>state str e.
         fs = JsonFile (JObj state) \<and> get_item state ''token_expiry'' = JStr str \<and>
         fromisoformat str = Naive e \<and> t + five_minutes < e \<and>
         access_token ?s = get_item state ''access_token'' \<and> token_expiry ?s = Some e)"
    by fastforce
  have fresh: "\<not> absent (access_token ?s) \<longrightarrow> is_expired t ?s = Inr False"
  proof
    assume a: "\<not> absent (access_token ?s)"
    then have "access_token ?s \<noteq> JNull" by (auto simp: absent_def)
    with only_if obtain e limit where "datetime_sub e five_minutes = Inr limit" "t < limit"
      "token_expiry ?s = Some e" by blast
    with a show "is_expired t ?s = Inr False" by (simp add: is_expired_def absent_def)
  qed
  have discarded: "fs = JsonFile (JObj state) \<and> get_item state ''token_expiry'' = JStr str \<and>
       fromisoformat str = Naive e \<and> e \<le> t + five_minutes \<longrightarrow>
        access_token ?s = JNull \<and> token_expiry ?s = None \<and>
        (\<not> absent (get_item state ''refresh_token'') \<longrightarrow>
           refresh_token ?s = get_item state ''refresh_token'')"
    by (auto simp: init_def load_persisted_state_def restore_access_def Let_def absent_def
             datetime_sub_def checked_def split: sum.splits if_splits)
  from restored fresh discarded show ?thesis by blast
qed

theorem access_token_restored_only_when_valid_witness:
  "is_expired 63929390400000000
       (init ''rt-baseline'' ''client-1''
          (\<lambda>str. if str = ''2026-11-04T13:00:00'' then Naive 63929394000000000 else BadFormat)
          63929390400000000
          (JsonFile (JObj [(''refresh_token'', JStr ''rt-persisted''),
                           (''access_token'', JStr ''at-1''),
                           (''token_expiry'', JStr ''2026-11-04T13:00:00'')]))) = Inr False
   \<and> access_token
       (init ''rt-baseline'' ''client-1''
          (\<lambda>str. if str = ''2026-11-04T12:04:00'' then Naive 63929390640000000 else BadFormat)
          63929390400000000
          (JsonFile (JObj [(''refresh_token'', JStr ''rt-persisted''),
                           (''access_token'', JStr ''at-1''),
                           (''token_expiry'', JStr ''2026-11-04T12:04:00'')]))) = JNull
   \<and> refresh_token
       (init ''rt-baseline'' ''client-1''
          (\<lambda>str. if str = ''2026-11-04T12:04:00'' then Naive 63929390640000000 else BadFormat)
          63929390400000000
          (JsonFile (JObj [(''refresh_token'', JStr ''rt-persisted''),
                           (''access_token'', JStr ''at-1''),
                           (''token_expiry'', JStr ''2026-11-04T12:04:00'')]))) = JStr ''rt-persisted''"
proof -
  let ?valid = "[(''refresh_token'', JStr ''rt-persisted''), (''access_token'', JStr ''at-1''),
                 (''token_expiry'', JStr ''2026-11-04T13:00:00'')]"
  let ?stale = "[(''refresh_token'', JStr ''rt-persisted''), (''access_token'', JStr ''at-1''),
                 (''token_expiry'', JStr ''2026-11-04T12:04:00'')]"
  let ?f = "\<lambda>str. if str = ''2026-11-04T13:00:00'' then Naive 63929394000000000 else BadFormat"
  let ?g = "\<lambda>str. if str = ''2026-11-04T12:04:00'' then Naive 63929390640000000 else BadFormat"
  let ?now = "63929390400000000 :: int"
  have restored:
    "\<not> absent (access_token (init ''rt-baseline'' ''client-1'' ?f ?now (JsonFile (JObj ?valid))))"
    by (simp add: init_def load_persisted_state_def restore_access_def get_item_def
          absent_def five_minutes_def datetime_sub_def checked_def max_datetime_def)
  have stale:
    "JsonFile (JObj ?stale) = JsonFile (JObj ?stale) \<and>
     get_item ?stale ''token_expiry'' = JStr ''2026-11-04T12:04:00'' \<and>
     ?g ''2026-11-04T12:04:00'' = Naive 63929390640000000 \<and>
     (63929390640000000::int) \<le> ?now + five_minutes"
    by (simp add: get_item_def five_minutes_def)
  have kept: "\<not> absent (get_item ?stale ''refresh_token'')"
    by (simp add: get_item_def absent_def)
  note valid_case = access_token_restored_only_when_valid
    [of "''rt-baseline''" "''client-1''" ?f ?now "JsonFile (JObj ?valid)"]
  note stale_case = access_token_restored_only_when_valid
    [of "''rt-baseline''" "''client-1''" ?g ?now "JsonFile (JObj ?stale)" ?stale
        "''2026-11-04T12:04:00''" 63929390640000000]
  from valid_case restored
  have c1: "is_expired ?now (init ''rt-baseline'' ''client-1'' ?f ?now (JsonFile (JObj ?valid))) =
            Inr False"
    by blast
  from stale_case stale kept have c2:
    "access_token (init ''rt-baseline'' ''client-1'' ?g ?now (JsonFile (JObj ?stale))) = JNull \<and>
     refresh_token (init ''rt-baseline'' ''client-1'' ?g ?now (JsonFile (JObj ?stale))) =
       get_item ?stale ''refresh_token''"
    by blast
  from c1 c2 show ?thesis by (simp add: get_item_def)
qed

end
